theory Spec2Isabelle
  imports Main
begin

section \<open>Process launcher: the argument vector of the assistant CLI\<close>

text \<open>
  Go strings are byte sequences; they are modelled by \<open>string\<close>. The options
  bundle \<open>ClaudeCLIOptions\<close> and its nested \<open>ToolsSettings\<close> are the structs of the
  build service. A nil \<open>*ToolsSettings\<close> is \<open>None\<close>.
\<close>

record ToolsSettings =
  AllowedTools :: "string list"
  DisallowedTools :: "string list"
  SkipPermissions :: bool

record ImageData =
  Data :: string
  MimeType :: string

record ClaudeCLIOptions =
  OptSessionID :: string
  ProjectPath :: string
  CWD :: string
  Resume :: bool
  ToolsSettings :: "ToolsSettings option"
  PermissionMode :: string
  Images :: "ImageData list"
  Model :: string

definition planModeTools :: "string list" where
  "planModeTools = [''Read'', ''Task'', ''exit_plan_mode'', ''TodoRead'', ''TodoWrite'']"

text \<open>The loop \<open>for _, tool := range tools { args = append(args, flag, tool) }\<close>.\<close>

fun appendTools :: "string list \<Rightarrow> string \<Rightarrow> string list \<Rightarrow> string list" where
  "appendTools args flag [] = args"
| "appendTools args flag (tool # tools) = appendTools (args @ [flag, tool]) flag tools"

text \<open>
  \<open>buildClaudeCLIArgs\<close>. The two file-system probes \<open>hasMCPServers\<close> and
  \<open>getMCPConfigPath\<close> read \<open>~/.claude.json\<close>; their results are parameters.
\<close>

definition buildClaudeCLIArgs ::
  "bool \<Rightarrow> string \<Rightarrow> string \<Rightarrow> ClaudeCLIOptions \<Rightarrow> string list" where
  "buildClaudeCLIArgs hasMCPServers getMCPConfigPath command options =
    (let args = [];
         args = (if Resume options \<and> OptSessionID options \<noteq> ''''
                 then args @ [''--resume'', OptSessionID options] else args);
         args = args @ [''--output-format'', ''stream-json'', ''--verbose''];
         args = (if hasMCPServers
                 then (if getMCPConfigPath \<noteq> ''''
                       then args @ [''--mcp-config'', getMCPConfigPath] else args)
                 else args);
         args = (if \<not> Resume options
                 then (let model = Model options;
                           model = (if model = '''' then ''sonnet'' else model)
                       in args @ [''--model'', model])
                 else args);
         args = (if PermissionMode options \<noteq> '''' \<and> PermissionMode options \<noteq> ''default''
                 then args @ [''--permission-mode'', PermissionMode options] else args);
         args = (case ToolsSettings options of
                   None \<Rightarrow> args
                 | Some settings \<Rightarrow>
                     if SkipPermissions settings \<and> PermissionMode options \<noteq> ''plan''
                     then args @ [''--dangerously-skip-permissions'']
                     else (let args = (if length (AllowedTools settings) > 0
                                       then appendTools args ''--allowedTools'' (AllowedTools settings)
                                       else args);
                               args = (if length (DisallowedTools settings) > 0
                                       then appendTools args ''--disallowedTools'' (DisallowedTools settings)
                                       else args)
                           in if PermissionMode options = ''plan''
                              then appendTools args ''--allowedTools'' planModeTools
                              else args));
         args = (if command \<noteq> '''' then args @ [''--print'', ''--'', command] else args)
     in args)"

section \<open>Library functions the services rely on\<close>

subsection \<open>Splitting a command line: \<open>strings.Fields\<close>\<close>

text \<open>
  \<open>utf8.DecodeRuneInString\<close>: the first rune of a byte string and its width in bytes.
  An ill-formed sequence yields \<open>RuneError\<close> with width 1. The ranges for the second byte
  are those of the \<open>acceptRanges\<close> table.
\<close>

definition RuneError :: nat where
  "RuneError = 0xFFFD"

fun DecodeRuneInString :: "string \<Rightarrow> nat \<times> nat" where
  "DecodeRuneInString [] = (RuneError, 0)"
| "DecodeRuneInString (c # cs) =
    (let s0 = (of_char c :: nat) in
     if s0 < 0x80 then (s0, 1)
     else if s0 < 0xC2 \<or> 0xF4 < s0 then (RuneError, 1)
     else
       let sz = (if s0 < 0xE0 then 2 else if s0 < 0xF0 then 3 else (4::nat));
           lo = (if s0 = 0xE0 then 0xA0 else if s0 = 0xF0 then 0x90 else (0x80::nat));
           hi = (if s0 = 0xED then 0x9F else if s0 = 0xF4 then 0x8F else (0xBF::nat))
       in if length (c # cs) < sz then (RuneError, 1)
          else
            let s1 = (of_char (cs ! 0) :: nat) in
            if s1 < lo \<or> hi < s1 then (RuneError, 1)
            else if sz \<le> 2 then ((s0 mod 32) * 64 + s1 mod 64, 2)
            else
              let s2 = (of_char (cs ! 1) :: nat) in
              if s2 < 0x80 \<or> 0xBF < s2 then (RuneError, 1)
              else if sz \<le> 3 then ((s0 mod 16) * 4096 + (s1 mod 64) * 64 + s2 mod 64, 3)
              else
                let s3 = (of_char (cs ! 2) :: nat) in
                if s3 < 0x80 \<or> 0xBF < s3 then (RuneError, 1)
                else ((s0 mod 8) * 262144 + (s1 mod 64) * 4096 + (s2 mod 64) * 64 + s3 mod 64, 4))"

text \<open>\<open>unicode.IsSpace\<close>: the Latin-1 switch, then the \<open>White_Space\<close> range table.\<close>

definition unicode_IsSpace :: "nat \<Rightarrow> bool" where
  "unicode_IsSpace r =
    (if r \<le> 0xFF
     then r = 0x09 \<or> r = 0x0A \<or> r = 0x0B \<or> r = 0x0C \<or> r = 0x0D \<or> r = 0x20
          \<or> r = 0x85 \<or> r = 0xA0
     else r = 0x1680 \<or> (0x2000 \<le> r \<and> r \<le> 0x200A) \<or> r = 0x2028 \<or> r = 0x2029
          \<or> r = 0x202F \<or> r = 0x205F \<or> r = 0x3000)"

text \<open>The byte table \<open>asciiSpace\<close> of package \<open>strings\<close>: tab, LF, VT, FF, CR, space.\<close>

definition asciiSpace :: "char \<Rightarrow> bool" where
  "asciiSpace c = ((of_char c :: nat) \<in> {0x09, 0x0A, 0x0B, 0x0C, 0x0D, 0x20})"

text \<open>
  \<open>strings.FieldsFunc\<close>: the loop \<open>for end, rune := range s\<close> with the open span kept
  as the bytes collected so far (\<open>cur\<close>; a span is open iff \<open>cur\<close> is non-empty, since
  opening one collects a rune). A rune of width \<open>width\<close> is the head byte and
  \<open>width - 1\<close> further bytes. \<open>strings.Fields\<close> has a fast path for strings that are
  ASCII throughout; it agrees with \<open>FieldsFunc(s, unicode.IsSpace)\<close> there.
\<close>

fun FieldsFunc_loop :: "(nat \<Rightarrow> bool) \<Rightarrow> string \<Rightarrow> string \<Rightarrow> string list" where
  "FieldsFunc_loop f cur [] = (if cur \<noteq> [] then [cur] else [])"
| "FieldsFunc_loop f cur (c # cs) =
    (case DecodeRuneInString (c # cs) of
       (r, width) \<Rightarrow>
         if f r
         then (if cur \<noteq> []
               then cur # FieldsFunc_loop f [] (drop (width - 1) cs)
               else FieldsFunc_loop f [] (drop (width - 1) cs))
         else FieldsFunc_loop f (cur @ c # take (width - 1) cs) (drop (width - 1) cs))"

definition FieldsFunc :: "string \<Rightarrow> (nat \<Rightarrow> bool) \<Rightarrow> string list" where
  "FieldsFunc s f = FieldsFunc_loop f [] s"

definition Fields :: "string \<Rightarrow> string list" where
  "Fields s = FieldsFunc s unicode_IsSpace"

text \<open>
  A string consists of whitespace only when every rune that ranging over it yields is a
  space for \<open>unicode.IsSpace\<close>. The empty string is one of them.
\<close>

fun whitespaceOnly :: "string \<Rightarrow> bool" where
  "whitespaceOnly [] = True"
| "whitespaceOnly (c # cs) =
    (case DecodeRuneInString (c # cs) of
       (r, width) \<Rightarrow> unicode_IsSpace r \<and> whitespaceOnly (drop (width - 1) cs))"

subsection \<open>Formatting an integer with \<open>%d\<close>\<close>

function itoa_nat :: "nat \<Rightarrow> string" where
  "itoa_nat n =
    (if n < 10 then [''0123456789'' ! n]
     else itoa_nat (n div 10) @ [''0123456789'' ! (n mod 10)])"
  by pat_completeness auto
termination
  by (relation "measure id") auto

definition itoa :: "int \<Rightarrow> string" where
  "itoa i = (if i < 0 then ''-'' @ itoa_nat (nat (- i)) else itoa_nat (nat i))"

subsection \<open>Paths: \<open>path/filepath\<close> on Unix\<close>

fun splitSlash :: "string \<Rightarrow> string list" where
  "splitSlash [] = [[]]"
| "splitSlash (c # cs) =
    (if c = CHR ''/'' then [] # splitSlash cs
     else (case splitSlash cs of
             [] \<Rightarrow> [[c]]
           | x # xs \<Rightarrow> (c # x) # xs))"

fun strings_Join :: "string list \<Rightarrow> string \<Rightarrow> string" where
  "strings_Join [] sep = []"
| "strings_Join [x] sep = x"
| "strings_Join (x # y # ys) sep = x @ sep @ strings_Join (y # ys) sep"

text \<open>
  \<open>filepath.Clean\<close>, element by element. \<open>out\<close> is the cleaned path so far, last element
  first. An empty element and \<open>.\<close> are dropped; \<open>..\<close> removes the last element when there
  is one to remove, is dropped at the root, and is kept at the front of a relative path.
\<close>

fun cleanElems :: "bool \<Rightarrow> string list \<Rightarrow> string list \<Rightarrow> string list" where
  "cleanElems rooted out [] = rev out"
| "cleanElems rooted out (e # es) =
    (if e = [] \<or> e = ''.'' then cleanElems rooted out es
     else if e = ''..''
     then (case out of
             [] \<Rightarrow> if rooted then cleanElems rooted [] es else cleanElems rooted [''..''] es
           | e1 # below \<Rightarrow>
               if rooted \<or> e1 \<noteq> ''..'' then cleanElems rooted below es
               else cleanElems rooted (''..'' # out) es)
     else cleanElems rooted (e # out) es)"

definition filepath_IsAbs :: "string \<Rightarrow> bool" where
  "filepath_IsAbs path = (case path of [] \<Rightarrow> False | c # _ \<Rightarrow> c = CHR ''/'')"

definition filepath_Clean :: "string \<Rightarrow> string" where
  "filepath_Clean path =
    (if path = [] then ''.''
     else let rooted = filepath_IsAbs path;
              body = strings_Join (cleanElems rooted [] (splitSlash path)) ''/''
          in if rooted then ''/'' @ body
             else if body = [] then ''.'' else body)"

text \<open>\<open>filepath.Join\<close>: leading empty elements are skipped, the rest joined and cleaned.\<close>

definition filepath_Join :: "string list \<Rightarrow> string" where
  "filepath_Join elem =
    (case dropWhile (\<lambda>e. e = []) elem of
       [] \<Rightarrow> []
     | es \<Rightarrow> filepath_Clean (strings_Join es ''/''))"

text \<open>
  \<open>filepath.Abs\<close>. The working directory \<open>os.Getwd\<close> is a parameter; \<open>None\<close> is its
  failure.
\<close>

definition filepath_Abs :: "string option \<Rightarrow> string \<Rightarrow> string + string" where
  "filepath_Abs getwd path =
    (if filepath_IsAbs path then Inr (filepath_Clean path)
     else (case getwd of
             None \<Rightarrow> Inl ''getwd: no such file or directory''
           | Some wd \<Rightarrow> Inr (filepath_Join [wd, path])))"

text \<open>\<open>filepath.Dir\<close>: everything up to the last separator, cleaned.\<close>

definition filepath_Dir :: "string \<Rightarrow> string" where
  "filepath_Dir path = filepath_Clean (rev (dropWhile (\<lambda>c. c \<noteq> CHR ''/'') (rev path)))"

definition strings_HasPrefix :: "string \<Rightarrow> string \<Rightarrow> bool" where
  "strings_HasPrefix s pre = (length s \<ge> length pre \<and> take (length pre) s = pre)"

definition strings_ReplaceAll_char :: "string \<Rightarrow> char \<Rightarrow> char \<Rightarrow> string" where
  "strings_ReplaceAll_char s old new = map (\<lambda>c. if c = old then new else c) s"

section \<open>Job registry: data model\<close>

text \<open>
  A \<open>uuid.UUID\<close> is modelled by its canonical text (what \<open>String()\<close> returns), a
  \<open>time.Time\<close> by a clock reading. Pointer fields (\<open>*string\<close>, \<open>*int\<close>,
  \<open>*time.Time\<close>) are options, \<open>None\<close> for nil. The bookkeeping columns
  \<open>CreatedAt\<close>, \<open>UpdatedAt\<close>, \<open>Metadata\<close> and the preloaded relations play no
  part in the operations below and are left out.
\<close>

type_synonym uuid = string
type_synonym time = nat

definition uuid_Nil :: uuid where
  "uuid_Nil = ''00000000-0000-0000-0000-000000000000''"

datatype BuildStatus =
    BuildStatusPending
  | BuildStatusRunning
  | BuildStatusCompleted
  | BuildStatusFailed
  | BuildStatusCancelled

record Build =
  ID :: uuid
  UserID :: uuid
  ProjectID :: uuid
  SessionID :: "uuid option"
  Command :: string
  WorkingDir :: string
  Status :: BuildStatus
  Output :: string
  Error :: "string option"
  ExitCode :: "int option"
  ProcessID :: "int option"
  StartedAt :: "time option"
  CompletedAt :: "time option"

definition IsRunning :: "Build \<Rightarrow> bool" where
  "IsRunning b = (Status b = BuildStatusRunning)"

definition IsCompleted :: "Build \<Rightarrow> bool" where
  "IsCompleted b =
    (Status b = BuildStatusCompleted \<or> Status b = BuildStatusFailed
     \<or> Status b = BuildStatusCancelled)"

record BuildLog =
  BuildID :: uuid
  Level :: string
  Message :: string
  Timestamp :: time

record ChatMessage =
  MsgSessionID :: uuid
  Sender :: string
  Text :: "string option"
  Content :: "(string \<times> string) list"

text \<open>
  An \<open>exec.Cmd\<close>. \<open>Process\<close> is nil until \<open>Start\<close> succeeds. The operating-system
  process behind it is running, or has been sent SIGKILL and not yet been waited for, or
  has been waited for (\<open>os.Process\<close> is then done).
\<close>

datatype pstate = ProcRunning | ProcKilled | ProcDone

record Cmd =
  Path :: string
  Args :: "string list"
  Dir :: string
  Env :: "string list"
  Process :: "(int \<times> pstate) option"

text \<open>
  Actions on the host that the model records but does not interpret.
\<close>

datatype os_effect =
    EffMkdirAll string
  | EffGitCommit string string
  | EffZipFolder string string
  | EffUpload string string string
  | EffRemove string
  | EffRemoveAll string
  | EffKill int

text \<open>
  The state shared by all tasks: the clock, the two build tables and the chat-message
  table of the relational store, the \<open>network_path\<close> column of the storage locations
  (by row id), the live-handle
  map \<open>activeBuilds\<close> of the build service, and the host. The \<open>builds\<close> table is kept
  as the sequence of row versions written, oldest first; the current row of a build is the
  last version with its id. \<open>db_up\<close> tells whether the store accepts statements;
  \<open>mkdir_err\<close> is the error \<open>os.MkdirAll\<close> returns, if any.
\<close>

record world =
  clock :: time
  db_up :: bool
  builds :: "Build list"
  build_logs :: "BuildLog list"
  chat_messages :: "ChatMessage list"
  network_path :: "uuid \<rightharpoonup> string option"
  activeBuilds :: "uuid \<rightharpoonup> Cmd"
  environ :: "string list"
  mkdir_err :: "string option"
  effects :: "os_effect list"

subsection \<open>The relational store\<close>

text \<open>
  \<open>database.DB.Create(build)\<close> with the \<open>BeforeCreate\<close> hook, which draws a fresh id
  (parameter \<open>newID\<close>, the value of \<open>uuid.New()\<close>) when the id is nil.
\<close>

definition BeforeCreate :: "uuid \<Rightarrow> Build \<Rightarrow> Build" where
  "BeforeCreate newID b = (if ID b = uuid_Nil then b\<lparr>ID := newID\<rparr> else b)"

definition db_Create :: "uuid \<Rightarrow> world \<Rightarrow> Build \<Rightarrow> (string + Build) \<times> world" where
  "db_Create newID w b =
    (if db_up w
     then (let b = BeforeCreate newID b in (Inr b, w\<lparr>builds := builds w @ [b]\<rparr>))
     else (Inl ''database is unavailable'', w))"

text \<open>\<open>database.DB.Save(build)\<close>; the callers ignore its error.\<close>

definition db_Save :: "world \<Rightarrow> Build \<Rightarrow> world" where
  "db_Save w b = (if db_up w then w\<lparr>builds := builds w @ [b]\<rparr> else w)"

text \<open>\<open>database.DB.Where("id = ?", buildID).First(&build)\<close>.\<close>

definition db_First :: "world \<Rightarrow> uuid \<Rightarrow> Build option" where
  "db_First w buildID =
    (if db_up w then List.find (\<lambda>b. ID b = buildID) (rev (builds w)) else None)"

text \<open>
  \<open>logBuildEvent\<close>: one row in \<open>build_logs\<close>, stamped by its \<open>BeforeCreate\<close> hook.
  When the insert fails the error only goes to the process logger.
\<close>

definition logBuildEvent :: "world \<Rightarrow> uuid \<Rightarrow> string \<Rightarrow> string \<Rightarrow> world" where
  "logBuildEvent w buildID level message =
    (if db_up w
     then w\<lparr>build_logs := build_logs w @
            [\<lparr>BuildID = buildID, Level = level, Message = message, Timestamp = clock w\<rparr>]\<rparr>
     else w)"

definition os_MkdirAll :: "world \<Rightarrow> string \<Rightarrow> string option \<times> world" where
  "os_MkdirAll w path =
    (case mkdir_err w of
       Some err \<Rightarrow> (Some err, w)
     | None \<Rightarrow> (None, w\<lparr>effects := effects w @ [EffMkdirAll path]\<rparr>))"

text \<open>The environment may let time pass between any two steps.\<close>

definition tick :: "world \<Rightarrow> world" where
  "tick w = w\<lparr>clock := Suc (clock w)\<rparr>"

section \<open>Job registry: operations of the build service\<close>

definition getWorkingDirectory :: "uuid \<Rightarrow> uuid \<Rightarrow> uuid option \<Rightarrow> string" where
  "getWorkingDirectory userID projectID sessionID =
    (let baseDir = filepath_Join [''/tmp'', ''borderless-coding'', ''builds'', userID, projectID]
     in case sessionID of
          None \<Rightarrow> baseDir
        | Some sid \<Rightarrow> filepath_Join [baseDir, sid])"

text \<open>
  \<open>StartBuild\<close>. It returns the new record (or an error) at once; the statement
  \<open>go s.executeBuild(ctx, build)\<close> hands the same record to a task of its own, which is
  \<open>executeBuild\<close> below, run by the scheduler at some later point.
\<close>

definition StartBuild ::
  "uuid \<Rightarrow> world \<Rightarrow> uuid \<Rightarrow> uuid \<Rightarrow> uuid option \<Rightarrow> string \<Rightarrow> (string + Build) \<times> world" where
  "StartBuild newID w userID projectID sessionID command =
    (let workingDir = getWorkingDirectory userID projectID sessionID in
     case os_MkdirAll w workingDir of
       (Some err, w) \<Rightarrow> (Inl (''failed to create working directory: '' @ err), w)
     | (None, w) \<Rightarrow>
         (let build = \<lparr>ID = uuid_Nil, UserID = userID, ProjectID = projectID,
                       SessionID = sessionID, Command = command, WorkingDir = workingDir,
                       Status = BuildStatusPending, Output = '''', Error = None,
                       ExitCode = None, ProcessID = None, StartedAt = None,
                       CompletedAt = None\<rparr>
          in case db_Create newID w build of
               (Inl err, w) \<Rightarrow> (Inl (''failed to create build record: '' @ err), w)
             | (Inr build, w) \<Rightarrow> (Inr build, w)))"

definition failBuild :: "world \<Rightarrow> Build \<Rightarrow> string \<Rightarrow> world \<times> Build" where
  "failBuild w build errorMsg =
    (let now = clock w;
         build = build\<lparr>Status := BuildStatusFailed, CompletedAt := Some now,
                       Error := Some errorMsg, ExitCode := Some 1\<rparr>;
         w = db_Save w build;
         w = logBuildEvent w (ID build) ''error'' errorMsg
     in (w, build))"

text \<open>
  What the host answers when the command is launched: the errors of \<open>StdoutPipe\<close>,
  \<open>StderrPipe\<close> and \<open>Start\<close> (\<open>None\<close> for success), the process id, and what
  \<open>cmd.Wait\<close> returns if the process ends by itself.
\<close>

datatype wait_error = ExitError string int | OtherWaitError string

fun wait_error_Error :: "wait_error \<Rightarrow> string" where
  "wait_error_Error (ExitError msg code) = msg"
| "wait_error_Error (OtherWaitError msg) = msg"

record proc_env =
  stdoutPipeErr :: "string option"
  stderrPipeErr :: "string option"
  startErr :: "string option"
  pid :: int
  exitErr :: "wait_error option"

definition buildEnv :: "world \<Rightarrow> Build \<Rightarrow> string list" where
  "buildEnv w build =
    environ w @ [''USER_ID='' @ UserID build, ''PROJECT_ID='' @ ProjectID build,
                 ''WORKING_DIR='' @ WorkingDir build]"

text \<open>
  The part of \<open>executeBuild\<close> and \<open>executeClaudeCLI\<close> from the registration of the
  command in \<open>activeBuilds\<close> to the start of the process. The flag returned is false when
  the task has returned through \<open>failBuild\<close>.
\<close>

definition startCommand ::
  "proc_env \<Rightarrow> world \<Rightarrow> Build \<Rightarrow> Cmd \<Rightarrow> string \<Rightarrow> string \<Rightarrow> bool \<times> world \<times> Build" where
  "startCommand env w build cmd startMsg pidMsg =
    (let w = w\<lparr>activeBuilds := (activeBuilds w)(ID build \<mapsto> cmd)\<rparr> in
     case stdoutPipeErr env of
       Some err \<Rightarrow>
         (let (w, build) = failBuild w build (''Failed to create stdout pipe: '' @ err)
          in (False, w, build))
     | None \<Rightarrow>
        (case stderrPipeErr env of
           Some err \<Rightarrow>
             (let (w, build) = failBuild w build (''Failed to create stderr pipe: '' @ err)
              in (False, w, build))
         | None \<Rightarrow>
            (case startErr env of
               Some err \<Rightarrow>
                 (let (w, build) = failBuild w build (startMsg @ err)
                  in (False, w, build))
             | None \<Rightarrow>
                 (let processID = pid env;
                      w = w\<lparr>activeBuilds := (activeBuilds w)
                             (ID build \<mapsto> cmd\<lparr>Process := Some (processID, ProcRunning)\<rparr>)\<rparr>;
                      build = build\<lparr>ProcessID := Some processID\<rparr>;
                      w = db_Save w build;
                      w = logBuildEvent w (ID build) ''info'' (pidMsg @ itoa processID)
                  in (True, w, build)))))"

text \<open>\<open>executeBuild\<close>, up to and including the start of the process.\<close>

definition executeBuild_launch :: "proc_env \<Rightarrow> world \<Rightarrow> Build \<Rightarrow> bool \<times> world \<times> Build" where
  "executeBuild_launch env w build =
    (let now = clock w;
         build = build\<lparr>Status := BuildStatusRunning, StartedAt := Some now\<rparr>;
         w = db_Save w build;
         w = logBuildEvent w (ID build) ''info'' ''Build started'';
         parts = Fields (Command build)
     in case parts of
          [] \<Rightarrow> (let (w, build) = failBuild w build ''Empty command'' in (False, w, build))
        | cmdName # cmdArgs \<Rightarrow>
            (let cmd = \<lparr>Path = cmdName, Args = cmdName # cmdArgs, Dir = WorkingDir build,
                        Env = buildEnv w build, Process = None\<rparr>
             in startCommand env w build cmd ''Failed to start command: ''
                  ''Process started with PID: ''))"

text \<open>
  The two readers of \<open>executeBuild\<close>. A line is a pair: whether it came from the error
  stream, and its text. The list is the order in which the lines were read.
\<close>

definition streamBuildLine :: "uuid \<Rightarrow> world \<times> string \<Rightarrow> bool \<times> string \<Rightarrow> world \<times> string" where
  "streamBuildLine buildID st l =
    (case st of (w, outputBuffer) \<Rightarrow>
     case l of (fromStderr, line) \<Rightarrow>
       (logBuildEvent w buildID (if fromStderr then ''error'' else ''info'') line,
        outputBuffer @ line @ [CHR 0x0A]))"

text \<open>
  \<open>cmd.Wait()\<close>: a process killed by SIGKILL ends with an \<open>*exec.ExitError\<close> whose exit
  code is -1; otherwise the process ends as the host says. The process is done afterwards.
\<close>

definition cmd_Wait :: "proc_env \<Rightarrow> world \<Rightarrow> uuid \<Rightarrow> wait_error option \<times> world" where
  "cmd_Wait env w buildID =
    (case activeBuilds w buildID of
       None \<Rightarrow> (exitErr env, w)
     | Some cmd \<Rightarrow>
        (case Process cmd of
           None \<Rightarrow> (exitErr env, w)
         | Some (p, st) \<Rightarrow>
             (if st = ProcKilled then Some (ExitError ''signal: killed'' (- 1)) else exitErr env,
              w\<lparr>activeBuilds := (activeBuilds w)(buildID \<mapsto> cmd\<lparr>Process := Some (p, ProcDone)\<rparr>)\<rparr>)))"

text \<open>
  The end of \<open>executeBuild\<close> and of \<open>executeClaudeCLI\<close>, from \<open>cmd.Wait()\<close> on; the two
  differ in the wording of the log messages only.
\<close>

definition finishCommand ::
  "proc_env \<Rightarrow> world \<Rightarrow> Build \<Rightarrow> string \<Rightarrow> string \<Rightarrow> string \<Rightarrow> world \<times> Build" where
  "finishCommand env w build outputBuffer failedMsg completedMsg =
    (let (err, w) = cmd_Wait env w (ID build);
         w = w\<lparr>activeBuilds := (activeBuilds w)(ID build := None)\<rparr>;
         completedAt = clock w;
         build = build\<lparr>CompletedAt := Some completedAt, Output := outputBuffer\<rparr>
     in case err of
          Some e \<Rightarrow>
            (let exitCode = (case e of ExitError msg code \<Rightarrow> code | OtherWaitError msg \<Rightarrow> 1);
                 errorMsg = wait_error_Error e;
                 build = build\<lparr>Status := BuildStatusFailed, ExitCode := Some exitCode,
                               Error := Some errorMsg\<rparr>;
                 w = logBuildEvent w (ID build) ''error''
                       (failedMsg @ itoa exitCode @ '': '' @ errorMsg);
                 w = db_Save w build
             in (w, build))
        | None \<Rightarrow>
            (let build = build\<lparr>Status := BuildStatusCompleted, ExitCode := Some 0\<rparr>;
                 w = logBuildEvent w (ID build) ''info'' completedMsg;
                 w = db_Save w build
             in (w, build)))"

definition executeBuild_finish :: "proc_env \<Rightarrow> world \<Rightarrow> Build \<Rightarrow> string \<Rightarrow> world \<times> Build" where
  "executeBuild_finish env w build outputBuffer =
    finishCommand env w build outputBuffer ''Build failed with exit code ''
      ''Build completed successfully''"

text \<open>\<open>executeBuild\<close> when nothing else runs in between.\<close>

definition executeBuild ::
  "proc_env \<Rightarrow> (bool \<times> string) list \<Rightarrow> world \<Rightarrow> Build \<Rightarrow> world \<times> Build" where
  "executeBuild env lines w build =
    (case executeBuild_launch env w build of
       (False, w, build) \<Rightarrow> (w, build)
     | (True, w, build) \<Rightarrow>
         (case foldl (streamBuildLine (ID build)) (w, '''') lines of
            (w, outputBuffer) \<Rightarrow> executeBuild_finish env w build outputBuffer))"

text \<open>
  \<open>os.Process.Kill\<close> through the handle: a nil \<open>cmd.Process\<close> is a nil-pointer
  dereference; a process that has been waited for gives \<open>os.ErrProcessDone\<close>; otherwise
  the signal is delivered.
\<close>

datatype cancel_error =
    NotRunning
  | KillFailed string
  | RecordNotFound
  | NilPointerPanic

text \<open>
  \<open>CancelBuild\<close>. \<open>NotRunning\<close> stands for the error
  \<open>build not found or not running\<close>.
\<close>

definition CancelBuild :: "world \<Rightarrow> uuid \<Rightarrow> cancel_error option \<times> world" where
  "CancelBuild w buildID =
    (case activeBuilds w buildID of
       None \<Rightarrow> (Some NotRunning, w)
     | Some cmd \<Rightarrow>
        (case Process cmd of
           None \<Rightarrow> (Some NilPointerPanic, w)
         | Some (p, st) \<Rightarrow>
             if st = ProcDone
             then (Some (KillFailed ''failed to kill process: os: process already finished''), w)
             else
               (let w = w\<lparr>activeBuilds := (activeBuilds w)
                          (buildID \<mapsto> cmd\<lparr>Process := Some (p, ProcKilled)\<rparr>),
                         effects := effects w @ [EffKill p]\<rparr>
                in case db_First w buildID of
                     None \<Rightarrow> (Some RecordNotFound, w)
                   | Some build \<Rightarrow>
                       (let now = clock w;
                            build = build\<lparr>Status := BuildStatusCancelled,
                                          CompletedAt := Some now\<rparr>;
                            w = db_Save w build;
                            w = logBuildEvent w buildID ''warn'' ''Build cancelled by user''
                        in (None, w)))))"

definition GetBuild :: "world \<Rightarrow> uuid \<Rightarrow> Build option" where
  "GetBuild w buildID = db_First w buildID"

text \<open>The statuses a build has had in the store, oldest first.\<close>

definition statusHistory :: "world \<Rightarrow> uuid \<Rightarrow> BuildStatus list" where
  "statusHistory w buildID = map Status (filter (\<lambda>b. ID b = buildID) (builds w))"

text \<open>
  \<open>executeClaudeCLI\<close>, in the same three parts. The decoded form of a JSON line is a
  \<open>map[string]interface{}\<close>; \<open>json.Unmarshal\<close> itself is a parameter
  (\<open>None\<close> when it returns an error).
\<close>

datatype jvalue =
    JNull
  | JBool bool
  | JNumber string
  | JString string
  | JArray "jvalue list"
  | JObject "(string \<times> jvalue) list"

type_synonym payload = "string \<rightharpoonup> jvalue"

definition executeClaudeCLI_launch ::
  "string \<Rightarrow> bool \<Rightarrow> string \<Rightarrow> proc_env \<Rightarrow> world \<Rightarrow> Build \<Rightarrow> ClaudeCLIOptions
   \<Rightarrow> bool \<times> world \<times> Build" where
  "executeClaudeCLI_launch claudeCLIPath hasMCPServers getMCPConfigPath env w build options =
    (let now = clock w;
         build = build\<lparr>Status := BuildStatusRunning, StartedAt := Some now\<rparr>;
         w = db_Save w build;
         w = logBuildEvent w (ID build) ''info'' ''Claude CLI build started'';
         args = buildClaudeCLIArgs hasMCPServers getMCPConfigPath (Command build) options;
         claudePath = claudeCLIPath;
         claudePath = (if claudePath = '''' then ''claude'' else claudePath);
         cmd = \<lparr>Path = claudePath, Args = claudePath # args, Dir = WorkingDir build,
                Env = buildEnv w build, Process = None\<rparr>
     in startCommand env w build cmd ''Failed to start Claude CLI: ''
          ''Claude CLI process started with PID: '')"

definition streamClaudeLine ::
  "(string \<Rightarrow> payload option) \<Rightarrow> uuid \<Rightarrow> world \<times> string \<Rightarrow> bool \<times> string
   \<Rightarrow> world \<times> string" where
  "streamClaudeLine unmarshal buildID st l =
    (case st of (w, outputBuffer) \<Rightarrow>
     case l of (fromStderr, line) \<Rightarrow>
       (let outputBuffer = outputBuffer @ line @ [CHR 0x0A] in
        if fromStderr then (logBuildEvent w buildID ''error'' line, outputBuffer)
        else
          (case unmarshal line of
             Some response \<Rightarrow>
               (let w = logBuildEvent w buildID ''info'' (''Claude response: '' @ line)
                in case response ''session_id'' of
                     Some (JString sessionID) \<Rightarrow>
                       (logBuildEvent w buildID ''info'' (''Session ID captured: '' @ sessionID),
                        outputBuffer)
                   | _ \<Rightarrow> (w, outputBuffer))
           | None \<Rightarrow> (logBuildEvent w buildID ''info'' line, outputBuffer))))"

definition executeClaudeCLI_finish ::
  "proc_env \<Rightarrow> world \<Rightarrow> Build \<Rightarrow> string \<Rightarrow> world \<times> Build" where
  "executeClaudeCLI_finish env w build outputBuffer =
    finishCommand env w build outputBuffer ''Claude CLI build failed with exit code ''
      ''Claude CLI build completed successfully''"

definition executeClaudeCLI ::
  "string \<Rightarrow> bool \<Rightarrow> string \<Rightarrow> (string \<Rightarrow> payload option) \<Rightarrow> proc_env
   \<Rightarrow> (bool \<times> string) list \<Rightarrow> world \<Rightarrow> Build \<Rightarrow> ClaudeCLIOptions \<Rightarrow> world \<times> Build" where
  "executeClaudeCLI claudeCLIPath hasMCPServers getMCPConfigPath unmarshal env lines w build options =
    (case executeClaudeCLI_launch claudeCLIPath hasMCPServers getMCPConfigPath env w build options of
       (False, w, build) \<Rightarrow> (w, build)
     | (True, w, build) \<Rightarrow>
         (case foldl (streamClaudeLine unmarshal (ID build)) (w, '''') lines of
            (w, outputBuffer) \<Rightarrow> executeClaudeCLI_finish env w build outputBuffer))"

section \<open>Artifact synchronizer: unpacking an archive\<close>

text \<open>
  An archive is the list of its entries, or the error of \<open>zip.OpenReader\<close>. What
  \<open>UnZipFile\<close> does to the file system is returned as the list of operations it issued,
  in order, the failing one included. Which operations fail is decided by the host
  (\<open>op_err\<close>); \<open>OpenErr\<close> is the error of opening the entry for reading.
\<close>

record zip_entry =
  Name :: string
  IsDir :: bool
  Mode :: nat
  Body :: string
  OpenErr :: "string option"

datatype fs_op =
    OpMkdirAll string nat
  | OpOpenFile string nat
  | OpCopy string string

record fs_env =
  getwd :: "string option"
  op_err :: "fs_op \<Rightarrow> string option"
  stat_ok :: "string \<Rightarrow> bool"

fun op_path :: "fs_op \<Rightarrow> string" where
  "op_path (OpMkdirAll p m) = p"
| "op_path (OpOpenFile p m) = p"
| "op_path (OpCopy p b) = p"

text \<open>
  The loop of \<open>UnZipFile\<close>. In the branch guarded by the ZipSlip test the statement is
  \<open>return err\<close>, and \<open>err\<close> there is the error of the \<open>filepath.Abs\<close> call just
  above, which is nil at that point: the function returns nil.
\<close>

fun UnZipFile_loop ::
  "fs_env \<Rightarrow> string \<Rightarrow> string \<Rightarrow> zip_entry list \<Rightarrow> fs_op list \<Rightarrow> string option \<times> fs_op list" where
  "UnZipFile_loop env destPath destAbs [] ops = (None, ops)"
| "UnZipFile_loop env destPath destAbs (f # fs) ops =
    (let name = strings_ReplaceAll_char (Name f) (CHR 0x5C) (CHR ''/'');
         targetPath = filepath_Join [destPath, name]
     in case filepath_Abs (getwd env) targetPath of
          Inl err \<Rightarrow> (Some err, ops)
        | Inr targetAbs \<Rightarrow>
            if \<not> strings_HasPrefix targetAbs (destAbs @ ''/'') \<and> targetAbs \<noteq> destAbs
            then (None, ops)
            else if IsDir f
            then (case op_err env (OpMkdirAll targetAbs (Mode f)) of
                    Some err \<Rightarrow> (Some err, ops @ [OpMkdirAll targetAbs (Mode f)])
                  | None \<Rightarrow>
                      UnZipFile_loop env destPath destAbs fs
                        (ops @ [OpMkdirAll targetAbs (Mode f)]))
            else
              (let ops = ops @ [OpMkdirAll (filepath_Dir targetAbs) 493] in
               case op_err env (OpMkdirAll (filepath_Dir targetAbs) 493) of
                 Some err \<Rightarrow> (Some err, ops)
               | None \<Rightarrow>
                  (case OpenErr f of
                     Some err \<Rightarrow> (Some err, ops)
                   | None \<Rightarrow>
                      (let ops = ops @ [OpOpenFile targetAbs (Mode f)] in
                       case op_err env (OpOpenFile targetAbs (Mode f)) of
                         Some err \<Rightarrow> (Some err, ops)
                       | None \<Rightarrow>
                          (let ops = ops @ [OpCopy targetAbs (Body f)] in
                           case op_err env (OpCopy targetAbs (Body f)) of
                             Some err \<Rightarrow> (Some err, ops)
                           | None \<Rightarrow> UnZipFile_loop env destPath destAbs fs ops)))))"

definition UnZipFile ::
  "fs_env \<Rightarrow> string + zip_entry list \<Rightarrow> string \<Rightarrow> string option \<times> fs_op list" where
  "UnZipFile env archive destPath =
    (case archive of
       Inl err \<Rightarrow> (Some err, [])
     | Inr files \<Rightarrow>
        (case op_err env (OpMkdirAll destPath 493) of
           Some err \<Rightarrow> (Some err, [OpMkdirAll destPath 493])
         | None \<Rightarrow>
            (case filepath_Abs (getwd env) destPath of
               Inl err \<Rightarrow> (Some err, [OpMkdirAll destPath 493])
             | Inr destAbs \<Rightarrow>
                 UnZipFile_loop env destPath destAbs files [OpMkdirAll destPath 493])))"

text \<open>
  The other version of \<open>UnZipFile\<close> in the same file, with its helpers \<open>isPathSafe\<close>
  and \<open>getParentDir\<close>. It uses the entry's path as it is written. \<open>os.Stat\<close> fails on
  the empty path, so \<open>dest[len(dest)-1]\<close> is only reached for a non-empty \<open>dest\<close>.
  Its \<open>return err\<close> after a failed \<open>isPathSafe\<close> returns the error of
  \<open>zip.OpenReader\<close>, nil at that point.
\<close>

definition isPathSafe :: "fs_env \<Rightarrow> string \<Rightarrow> string \<Rightarrow> bool" where
  "isPathSafe env dest target =
    (if \<not> stat_ok env dest \<or> dest = [] then False
     else let absDest = (if last dest \<noteq> CHR ''/'' then dest @ ''/'' else dest)
          in length target \<ge> length absDest \<and> take (length absDest) target = absDest)"

definition getParentDir :: "string \<Rightarrow> string" where
  "getParentDir path =
    (let upto = rev (dropWhile (\<lambda>c. c \<noteq> CHR ''/'') (rev path))
     in if length upto > 1 then take (length upto - 1) path else ''.'')"

fun UnZipFile2_loop ::
  "fs_env \<Rightarrow> string \<Rightarrow> zip_entry list \<Rightarrow> fs_op list \<Rightarrow> string option \<times> fs_op list" where
  "UnZipFile2_loop env destPath [] ops = (None, ops)"
| "UnZipFile2_loop env destPath (file # files) ops =
    (let fpath = destPath @ ''/'' @ Name file in
     if \<not> isPathSafe env destPath fpath then (None, ops)
     else if IsDir file
     then (case op_err env (OpMkdirAll fpath (Mode file)) of
             Some err \<Rightarrow> (Some err, ops @ [OpMkdirAll fpath (Mode file)])
           | None \<Rightarrow> UnZipFile2_loop env destPath files (ops @ [OpMkdirAll fpath (Mode file)]))
     else
       (let ops = ops @ [OpMkdirAll (getParentDir fpath) 493] in
        case op_err env (OpMkdirAll (getParentDir fpath) 493) of
          Some err \<Rightarrow> (Some err, ops)
        | None \<Rightarrow>
           (case OpenErr file of
              Some err \<Rightarrow> (Some err, ops)
            | None \<Rightarrow>
               (let ops = ops @ [OpOpenFile fpath (Mode file)] in
                case op_err env (OpOpenFile fpath (Mode file)) of
                  Some err \<Rightarrow> (Some err, ops)
                | None \<Rightarrow>
                   (let ops = ops @ [OpCopy fpath (Body file)] in
                    case op_err env (OpCopy fpath (Body file)) of
                      Some err \<Rightarrow> (Some err, ops)
                    | None \<Rightarrow> UnZipFile2_loop env destPath files ops)))))"

definition UnZipFile2 ::
  "fs_env \<Rightarrow> string + zip_entry list \<Rightarrow> string \<Rightarrow> string option \<times> fs_op list" where
  "UnZipFile2 env archive destPath =
    (case archive of
       Inl err \<Rightarrow> (Some err, [])
     | Inr files \<Rightarrow> UnZipFile2_loop env destPath files [])"

text \<open>
  A path lies in the directory \<open>destAbs\<close> (an absolute, clean path) when the place it
  resolves to is \<open>destAbs\<close> itself or below it.
\<close>

definition inside :: "string option \<Rightarrow> string \<Rightarrow> string \<Rightarrow> bool" where
  "inside wd destAbs p =
    (case filepath_Abs wd p of
       Inl err \<Rightarrow> False
     | Inr q \<Rightarrow> q = destAbs \<or> strings_HasPrefix q (destAbs @ ''/''))"

section \<open>Output multiplexer and event transport: \<open>StreamClaudeChat\<close>\<close>

text \<open>
  The handler's loop from the point where the process has been started. What it writes
  to the client is a list of server-sent events, each a name and a payload (the payload
  before \<open>json.Marshal\<close>). What is fixed for one request is collected in
  \<open>chat_env\<close>: the ids, the message, the working directory, the storage-location row
  read at the start, the configuration, and whether packing, uploading and
  \<open>git add\<close> fail.
\<close>

record chat_line =
  isErr :: bool
  lineText :: string

datatype sse_data =
    DataError string
  | DataPayload payload
  | DataOutput string
  | DataEmpty

type_synonym sse_event = "string \<times> sse_data"

record chat_state =
  assistantAccum :: string
  readersClosed :: nat
  written :: "sse_event list"

record chat_env =
  reqUserID :: uuid
  reqProjectID :: uuid
  chatSessionID :: uuid
  reqMessage :: string
  workDir :: string
  locID :: uuid
  locNetworkPath :: "string option"
  minioBucketName :: string
  osTempDir :: string
  cliPid :: int
  zipFails :: bool
  uploadFails :: bool
  gitAddFails :: bool

datatype chan_event =
    FromOutCh chat_line
  | FromDone
  | FromTicker
  | FromCtxDone

definition writeEvent :: "chat_state \<Rightarrow> string \<Rightarrow> sse_data \<Rightarrow> chat_state" where
  "writeEvent st name d = st\<lparr>written := written st @ [(name, d)]\<rparr>"

text \<open>The case \<open>l := <-outCh\<close> of the select statement.\<close>

definition handleLine :: "(string \<Rightarrow> payload option) \<Rightarrow> chat_state \<Rightarrow> chat_line \<Rightarrow> chat_state" where
  "handleLine unmarshal st l =
    (if lineText l = '''' then st
     else if isErr l then writeEvent st ''claude_error'' (DataError (lineText l))
     else
       (case unmarshal (lineText l) of
          Some payload \<Rightarrow>
            (let st = (case payload ''text'' of
                         Some (JString t) \<Rightarrow> st\<lparr>assistantAccum := assistantAccum st @ t\<rparr>
                       | _ \<Rightarrow> st)
             in writeEvent st ''claude_response'' (DataPayload payload))
        | None \<Rightarrow>
            (let st = st\<lparr>assistantAccum := assistantAccum st @ lineText l @ [CHR 0x0A]\<rparr>
             in writeEvent st ''claude_output'' (DataOutput (lineText l)))))"

fun parseMinIOPath :: "string \<Rightarrow> string \<times> string" where
  "parseMinIOPath [] = ('''', '''')"
| "parseMinIOPath (c # cs) =
    (if c = CHR ''/'' then ('''', cs)
     else (if CHR ''/'' \<in> set cs
           then (case parseMinIOPath cs of (b, obj) \<Rightarrow> (c # b, obj))
           else ('''', '''')))"

definition getOrComposeNetworkPath :: "chat_env \<Rightarrow> string" where
  "getOrComposeNetworkPath env =
    (case locNetworkPath env of
       Some np \<Rightarrow>
         if np \<noteq> '''' then np
         else minioBucketName env @ ''/'' @ (''users/'' @ reqUserID env @ ''/projects/''
                @ reqProjectID env @ ''/sessions/'' @ chatSessionID env @ ''.zip'')
     | None \<Rightarrow>
         minioBucketName env @ ''/'' @ (''users/'' @ reqUserID env @ ''/projects/''
           @ reqProjectID env @ ''/sessions/'' @ chatSessionID env @ ''.zip''))"

definition runGitCommit :: "bool \<Rightarrow> world \<Rightarrow> string \<Rightarrow> string \<Rightarrow> world" where
  "runGitCommit addFails w dir message =
    (if addFails then w
     else let message = (if message = '''' then ''update via chat'' else message)
          in w\<lparr>effects := effects w @ [EffGitCommit dir message]\<rparr>)"

definition db_CreateMessage :: "world \<Rightarrow> ChatMessage \<Rightarrow> world" where
  "db_CreateMessage w msg =
    (if db_up w then w\<lparr>chat_messages := chat_messages w @ [msg]\<rparr> else w)"

definition db_UpdateNetworkPath :: "world \<Rightarrow> uuid \<Rightarrow> string \<Rightarrow> world" where
  "db_UpdateNetworkPath w rowID np =
    (if db_up w \<and> network_path w rowID \<noteq> None
     then w\<lparr>network_path := (network_path w)(rowID \<mapsto> Some np)\<rparr>
     else w)"

text \<open>
  What the handler does once both readers are done: wait for the process, store the
  assistant's message, commit, pack and upload the working directory, remove it, and
  send the terminal event.
\<close>

definition finishChat :: "chat_env \<Rightarrow> world \<Rightarrow> chat_state \<Rightarrow> world \<times> chat_state" where
  "finishChat env w st =
    (let w = (if assistantAccum st \<noteq> ''''
              then db_CreateMessage w
                     \<lparr>MsgSessionID = chatSessionID env, Sender = ''assistant'',
                      Text = Some (assistantAccum st),
                      Content = [(''text'', assistantAccum st)]\<rparr>
              else w);
         w = runGitCommit (gitAddFails env) w (workDir env) (reqMessage env);
         composedPath = getOrComposeNetworkPath env;
         (bucket, object) = parseMinIOPath composedPath;
         tmpZip = filepath_Join [osTempDir env, ''upload-'' @ reqProjectID env @ ''.zip''];
         (w, st) =
           (if zipFails env
            then (w, writeEvent st ''upload_error'' (DataError ''zip failed''))
            else
              (let w = w\<lparr>effects := effects w @ [EffZipFolder (workDir env) tmpZip]\<rparr>;
                   (w, st) =
                     (if uploadFails env
                      then (w, writeEvent st ''upload_error'' (DataError ''upload failed''))
                      else
                        (let w = w\<lparr>effects := effects w @ [EffUpload bucket object tmpZip]\<rparr>
                         in (if locNetworkPath env = None \<or> locNetworkPath env = Some ''''
                             then db_UpdateNetworkPath w (locID env) composedPath
                             else w,
                             st)))
               in (w\<lparr>effects := effects w @ [EffRemove tmpZip]\<rparr>, st)));
         w = w\<lparr>effects := effects w @ [EffRemoveAll (workDir env)]\<rparr>;
         st = writeEvent st ''complete'' DataEmpty
     in (w, st))"

text \<open>
  The loop \<open>for { select { ... } }\<close>, run over the sequence of channel events the
  scheduler delivers. The flag returned is true when the handler has returned and false
  when it is still waiting in the select.
\<close>

fun StreamClaudeChat_loop ::
  "(string \<Rightarrow> payload option) \<Rightarrow> chat_env \<Rightarrow> world \<Rightarrow> chat_state \<Rightarrow> chan_event list
   \<Rightarrow> bool \<times> world \<times> chat_state" where
  "StreamClaudeChat_loop unmarshal env w st [] = (False, w, st)"
| "StreamClaudeChat_loop unmarshal env w st (FromOutCh l # es) =
     StreamClaudeChat_loop unmarshal env w (handleLine unmarshal st l) es"
| "StreamClaudeChat_loop unmarshal env w st (FromDone # es) =
    (let st = st\<lparr>readersClosed := readersClosed st + 1\<rparr>
     in if readersClosed st \<ge> 2
        then (case finishChat env w st of (w, st) \<Rightarrow> (True, w, st))
        else StreamClaudeChat_loop unmarshal env w st es)"
| "StreamClaudeChat_loop unmarshal env w st (FromTicker # es) =
     StreamClaudeChat_loop unmarshal env w (writeEvent st ''keepalive'' DataEmpty) es"
| "StreamClaudeChat_loop unmarshal env w st (FromCtxDone # es) =
     (True, w\<lparr>effects := effects w @ [EffKill (cliPid env)]\<rparr>, st)"

definition chat_start :: chat_state where
  "chat_start = \<lparr>assistantAccum = '''', readersClosed = 0, written = []\<rparr>"

section \<open>Example inputs\<close>

text \<open>
  A world with an empty store in which every host operation succeeds, a host that starts
  the command as process 4242, one on which the executable cannot be found, and a request
  to the chat handler whose upload fails.
\<close>

definition world0 :: world where
  "world0 =
    \<lparr>clock = 0, db_up = True, builds = [], build_logs = [], chat_messages = [],
     network_path = Map.empty, activeBuilds = Map.empty, environ = [],
     mkdir_err = None, effects = []\<rparr>"

definition host_ok :: proc_env where
  "host_ok =
    \<lparr>stdoutPipeErr = None, stderrPipeErr = None, startErr = None, pid = 4242,
     exitErr = None\<rparr>"

definition host_missing :: proc_env where
  "host_missing =
    \<lparr>stdoutPipeErr = None, stderrPipeErr = None,
     startErr = Some ''exec: no such file or directory'', pid = 0, exitErr = None\<rparr>"

definition build1 :: "string \<Rightarrow> Build" where
  "build1 command =
    \<lparr>ID = ''b1'', UserID = ''u1'', ProjectID = ''p1'', SessionID = None,
     Command = command, WorkingDir = ''/tmp/borderless-coding/builds/u1/p1'',
     Status = BuildStatusPending, Output = '''', Error = None, ExitCode = None,
     ProcessID = None, StartedAt = None, CompletedAt = None\<rparr>"

text \<open>
  The state in which the build \<open>b1\<close> with command \<open>sleep 100\<close> has been created
  (at time 0) and its process started as 4242 (at time 1): the three versions of its row,
  the two log records, and the registered handle.
\<close>

definition build_started :: Build where
  "build_started =
    (build1 ''sleep 100'')\<lparr>Status := BuildStatusRunning, StartedAt := Some 1\<rparr>"

definition build_running :: Build where
  "build_running = build_started\<lparr>ProcessID := Some 4242\<rparr>"

definition cmd_sleep :: Cmd where
  "cmd_sleep =
    \<lparr>Path = ''sleep'', Args = [''sleep'', ''100''],
     Dir = ''/tmp/borderless-coding/builds/u1/p1'',
     Env = [''USER_ID=u1'', ''PROJECT_ID=p1'',
            ''WORKING_DIR=/tmp/borderless-coding/builds/u1/p1''],
     Process = Some (4242, ProcRunning)\<rparr>"

definition world_running :: world where
  "world_running =
    \<lparr>clock = 1, db_up = True,
     builds = [build1 ''sleep 100'', build_started, build_running],
     build_logs =
       [\<lparr>BuildID = ''b1'', Level = ''info'', Message = ''Build started'', Timestamp = 1\<rparr>,
        \<lparr>BuildID = ''b1'', Level = ''info'', Message = ''Process started with PID: 4242'',
          Timestamp = 1\<rparr>],
     chat_messages = [], network_path = Map.empty,
     activeBuilds = [''b1'' \<mapsto> cmd_sleep], environ = [], mkdir_err = None,
     effects = [EffMkdirAll ''/tmp/borderless-coding/builds/u1/p1'']\<rparr>"

definition options0 :: ClaudeCLIOptions where
  "options0 =
    \<lparr>OptSessionID = '''', ProjectPath = '''', CWD = '''', Resume = False,
     ToolsSettings = None, PermissionMode = '''', Images = [], Model = ''''\<rparr>"

definition fs_ok :: fs_env where
  "fs_ok = \<lparr>getwd = Some ''/srv'', op_err = (\<lambda>op. None), stat_ok = (\<lambda>p. True)\<rparr>"

definition passwd_entry :: zip_entry where
  "passwd_entry =
    \<lparr>Name = ''../../etc/passwd'', IsDir = False, Mode = 420, Body = ''root'',
     OpenErr = None\<rparr>"

definition chat_env0 :: chat_env where
  "chat_env0 =
    \<lparr>reqUserID = ''u1'', reqProjectID = ''p1'', chatSessionID = ''s1'',
     reqMessage = ''hi'', workDir = ''/tmp/borderless-coding/chat/u1/p1'',
     locID = ''l1'', locNetworkPath = None, minioBucketName = ''bucket'',
     osTempDir = ''/tmp'', cliPid = 7, zipFails = False, uploadFails = True,
     gitAddFails = False\<rparr>"

text \<open>\<open>json.Unmarshal\<close> on the few lines the examples use.\<close>

definition sample_Unmarshal :: "string \<Rightarrow> payload option" where
  "sample_Unmarshal s =
    (if s = ''{}'' then Some Map.empty
     else if s = ''{\"text\":\"hi\"}'' then Some [''text'' \<mapsto> JString ''hi'']
     else None)"

section \<open>Properties\<close>

subsection \<open>Splitting on whitespace\<close>

lemma decode_ascii:
  "(of_char c :: nat) < 0x80 \<Longrightarrow> DecodeRuneInString (c # cs) = (of_char c, 1)"
  by simp

lemma asciiSpace_lt: "asciiSpace c \<Longrightarrow> (of_char c :: nat) < 0x80"
  by (auto simp: asciiSpace_def)

lemma IsSpace_ascii:
  "(of_char c :: nat) < 0x80 \<Longrightarrow> unicode_IsSpace (of_char c) = asciiSpace c"
  by (auto simp: unicode_IsSpace_def asciiSpace_def)

lemma Fields_loop_all_space:
  "\<forall>c \<in> set s. asciiSpace c \<Longrightarrow> FieldsFunc_loop unicode_IsSpace [] s = []"
proof (induction s)
  case Nil
  then show ?case by simp
next
  case (Cons c cs)
  have sp: "asciiSpace c" using Cons.prems by simp
  have d: "DecodeRuneInString (c # cs) = (of_char c, 1)"
    using asciiSpace_lt [OF sp] by (rule decode_ascii)
  have "unicode_IsSpace (of_char c)"
    using IsSpace_ascii [OF asciiSpace_lt [OF sp]] sp by simp
  with d Cons show ?case by simp
qed



lemma FieldsFunc_loop_Cons:
  "DecodeRuneInString (c # cs) = (r, n) \<Longrightarrow>
   FieldsFunc_loop f cur (c # cs) =
     (if f r
      then (if cur \<noteq> [] then cur # FieldsFunc_loop f [] (drop (n - 1) cs)
            else FieldsFunc_loop f [] (drop (n - 1) cs))
      else FieldsFunc_loop f (cur @ c # take (n - 1) cs) (drop (n - 1) cs))"
  by (simp del: DecodeRuneInString.simps)


lemma Fields_all_space: "\<forall>c \<in> set s. asciiSpace c \<Longrightarrow> Fields s = []"
  by (simp add: Fields_def FieldsFunc_def Fields_loop_all_space)



lemma FieldsFunc_loop_open: "cur \<noteq> [] \<Longrightarrow> FieldsFunc_loop f cur s \<noteq> []"
proof (induction f cur s rule: FieldsFunc_loop.induct)
  case (1 f cur)
  then show ?case by simp
next
  case (2 f cur c cs)
  obtain r n where d: "DecodeRuneInString (c # cs) = (r, n)"
    by (cases "DecodeRuneInString (c # cs)")
  note unf = FieldsFunc_loop_Cons [OF d, of f cur]
  show ?case
  proof (cases "f r")
    case True
    then show ?thesis unfolding unf using "2.prems" by simp
  next
    case False
    have "FieldsFunc_loop f (cur @ c # take (n - 1) cs) (drop (n - 1) cs) \<noteq> []"
      using "2.IH"(3) [OF d [symmetric] False] by simp
    then show ?thesis unfolding unf using False by simp
  qed
qed

lemma Fields_empty_iff: "Fields s = [] \<longleftrightarrow> whitespaceOnly s"
proof -
  have "FieldsFunc_loop unicode_IsSpace [] s = [] \<longleftrightarrow> whitespaceOnly s"
  proof (induction s rule: whitespaceOnly.induct)
    case 1
    then show ?case by simp
  next
    case (2 c cs)
    obtain r n where d: "DecodeRuneInString (c # cs) = (r, n)"
      by (cases "DecodeRuneInString (c # cs)")
    note unf = FieldsFunc_loop_Cons [OF d, of unicode_IsSpace "[]"]
    have w: "whitespaceOnly (c # cs) = (unicode_IsSpace r \<and> whitespaceOnly (drop (n - 1) cs))"
      using d by (simp del: DecodeRuneInString.simps)
    show ?case
    proof (cases "unicode_IsSpace r")
      case True
      then show ?thesis
        unfolding unf w using "2.IH" [OF d [symmetric]] by simp
    next
      case False
      have "FieldsFunc_loop unicode_IsSpace ([] @ c # take (n - 1) cs) (drop (n - 1) cs) \<noteq> []"
        by (rule FieldsFunc_loop_open) simp
      then show ?thesis unfolding unf w using False by simp
    qed
  qed
  then show ?thesis by (simp add: Fields_def FieldsFunc_def)
qed

lemma whitespaceOnly_ascii: "\<forall>c \<in> set s. asciiSpace c \<Longrightarrow> whitespaceOnly s"
  using Fields_all_space Fields_empty_iff by blast

subsection \<open>The store, failing a build, launching\<close>

subsection \<open>store lemmas\<close>

lemma find_last_written:
  "ID b = k \<Longrightarrow> List.find (\<lambda>x. ID x = k) (rev (bs @ [b])) = Some b"
  by simp

lemma db_First_db_Save:
  "db_up w \<Longrightarrow> ID b = k \<Longrightarrow> db_First (db_Save w b) k = Some b"
  by (simp add: db_First_def db_Save_def)

lemma db_First_ID: "db_First w k = Some b \<Longrightarrow> ID b = k"
  by (auto simp: db_First_def find_Some_iff split: if_splits)

lemma db_First_up: "db_First w k = Some b \<Longrightarrow> db_up w"
  by (auto simp: db_First_def split: if_splits)

lemma logBuildEvent_fields [simp]:
  "db_up (logBuildEvent w k lv m) = db_up w"
  "builds (logBuildEvent w k lv m) = builds w"
  "clock (logBuildEvent w k lv m) = clock w"
  "activeBuilds (logBuildEvent w k lv m) = activeBuilds w"
  "effects (logBuildEvent w k lv m) = effects w"
  "chat_messages (logBuildEvent w k lv m) = chat_messages w"
  by (simp_all add: logBuildEvent_def)

lemma db_Save_fields [simp]:
  "db_up (db_Save w b) = db_up w"
  "build_logs (db_Save w b) = build_logs w"
  "clock (db_Save w b) = clock w"
  "activeBuilds (db_Save w b) = activeBuilds w"
  "effects (db_Save w b) = effects w"
  by (simp_all add: db_Save_def)

lemma db_First_logBuildEvent [simp]:
  "db_First (logBuildEvent w k lv m) k' = db_First w k'"
  by (simp add: db_First_def)

lemma builds_db_Save: "db_up w \<Longrightarrow> builds (db_Save w b) = builds w @ [b]"
  by (simp add: db_Save_def)

lemma logs_logBuildEvent:
  "db_up w \<Longrightarrow> build_logs (logBuildEvent w k lv m) =
     build_logs w @ [\<lparr>BuildID = k, Level = lv, Message = m, Timestamp = clock w\<rparr>]"
  by (simp add: logBuildEvent_def)

lemma failBuild_eq:
  "db_up w \<Longrightarrow> failBuild w build msg =
     (let b = build\<lparr>Status := BuildStatusFailed, CompletedAt := Some (clock w),
                     Error := Some msg, ExitCode := Some 1\<rparr>
      in (w\<lparr>builds := builds w @ [b],
             build_logs := build_logs w @
               [\<lparr>BuildID = ID build, Level = ''error'', Message = msg, Timestamp = clock w\<rparr>]\<rparr>, b))"
  by (simp add: failBuild_def Let_def db_Save_def logBuildEvent_def)

lemma failBuild_active [simp]:
  "activeBuilds (fst (failBuild w build msg)) = activeBuilds w"
  by (simp add: failBuild_def Let_def)


lemma startCommand_spawn_failure:
  assumes "stdoutPipeErr env = None" and "stderrPipeErr env = None"
      and "startErr env = Some err" and "db_up w"
  shows "startCommand env w build cmd m1 m2 =
    (let f = build\<lparr>Status := BuildStatusFailed, CompletedAt := Some (clock w),
                     Error := Some (m1 @ err), ExitCode := Some 1\<rparr>
     in (False,
         w\<lparr>activeBuilds := (activeBuilds w)(ID build \<mapsto> cmd),
           builds := builds w @ [f],
           build_logs := build_logs w @
             [\<lparr>BuildID = ID build, Level = ''error'', Message = m1 @ err,
               Timestamp = clock w\<rparr>]\<rparr>, f))"
  using assms by (simp add: startCommand_def Let_def failBuild_eq)

subsection \<open>The example states\<close>

lemma example_working_directory:
  "getWorkingDirectory ''u1'' ''p1'' None = ''/tmp/borderless-coding/builds/u1/p1''"
  by code_simp

lemma example_fields:
  "Fields ''sleep 100'' = [''sleep'', ''100'']"
  "Fields ''nosuchprog'' = [''nosuchprog'']"
  "Fields ''echo hello'' = [''echo'', ''hello'']"
  "Fields ''echo \"a b\"'' = [''echo'', [CHR 0x22, CHR ''a''], [CHR ''b'', CHR 0x22]]"
  by (simp_all add: Fields_def FieldsFunc_def unicode_IsSpace_def)

lemma example_pid: "itoa 4242 = ''4242''"
  by (simp add: itoa_def itoa_nat.simps)

lemma StartBuild_example:
  "StartBuild ''b1'' world0 ''u1'' ''p1'' None command =
     (Inr (build1 command),
      world0\<lparr>effects := [EffMkdirAll ''/tmp/borderless-coding/builds/u1/p1''],
              builds := [build1 command]\<rparr>)"
  by (simp add: StartBuild_def os_MkdirAll_def db_Create_def BeforeCreate_def Let_def
      example_working_directory world0_def build1_def)

lemma world_running_reached:
  "executeBuild_launch host_ok
     (tick (snd (StartBuild ''b1'' world0 ''u1'' ''p1'' None ''sleep 100'')))
     (build1 ''sleep 100'')
   = (True, world_running, build_running)"
proof -
  have sb: "snd (StartBuild ''b1'' world0 ''u1'' ''p1'' None ''sleep 100'') =
      world0\<lparr>effects := [EffMkdirAll ''/tmp/borderless-coding/builds/u1/p1''],
              builds := [build1 ''sleep 100'']\<rparr>"
    by (simp add: StartBuild_example)
  have c: "Command (build1 ''sleep 100'') = ''sleep 100''"
    by (simp add: build1_def)
  show ?thesis
    unfolding sb executeBuild_launch_def Let_def
    by (simp add: c example_fields)
       (simp add: Let_def world0_def build1_def tick_def db_Save_def logBuildEvent_def
          startCommand_def host_ok_def buildEnv_def example_pid world_running_def
          build_running_def build_started_def cmd_sleep_def)
qed

lemma world_running_facts:
  "activeBuilds world_running ''b1'' = Some cmd_sleep"
  "Process cmd_sleep = Some (4242, ProcRunning)"
  "db_First world_running ''b1'' = Some build_running"
  "clock world_running = 1"
  "ID build_running = ''b1''"
  by (simp_all add: world_running_def cmd_sleep_def db_First_def build_running_def
      build_started_def build1_def)

subsection \<open>The argument vector\<close>

lemma appendTools_concat:
  "appendTools args flag tools = args @ concat (map (\<lambda>tool. [flag, tool]) tools)"
  by (induction tools arbitrary: args) simp_all

lemma if_append_right: "(if c then args @ xs else args) = args @ (if c then xs else [])"
  by simp

lemma if_if_append_right:
  "(if h then (if p then args @ xs else args) else args) = args @ (if h \<and> p then xs else [])"
  by simp

lemma if_not_append_right: "(if \<not> c then args @ xs else args) = args @ (if c then [] else xs)"
  by simp

lemma if_pos_length: "(if 0 < length ts then args @ concat (map f ts) else args) = args @ concat (map f ts)"
  by simp

lemma if_append_both: "(if c then args @ xs else args @ ys) = args @ (if c then xs else ys)"
  by simp

lemma case_option_append:
  "(case x of None \<Rightarrow> args | Some s \<Rightarrow> args @ f s) = args @ (case x of None \<Rightarrow> [] | Some s \<Rightarrow> f s)"
  by (cases x) simp_all

text \<open>
  Claim C5, as the code has it. The argument vector is the concatenation of: the resume
  flag with the session id, only when \<open>Resume\<close> is set and the id is not empty; the
  three output flags, always; the MCP configuration flag, when servers are configured and
  the path is not empty; the model flag (default \<open>sonnet\<close>), exactly when \<open>Resume\<close>
  is not set; the permission-mode flag, exactly when the mode is neither empty nor
  \<open>default\<close>; when a tools-settings block is present, either
  \<open>--dangerously-skip-permissions\<close> alone (skip requested and the mode is not
  \<open>plan\<close>) or the allowed and disallowed tool flags followed, under \<open>plan\<close>, by the
  fixed allow-list; nothing about tools when the block is absent; and \<open>--print -- input\<close>
  last, only when the input is not empty.
\<close>

theorem buildClaudeCLIArgs_shape:
  "buildClaudeCLIArgs hasMCP cfg command opts =
     (if Resume opts \<and> OptSessionID opts \<noteq> '''' then [''--resume'', OptSessionID opts] else [])
   @ [''--output-format'', ''stream-json'', ''--verbose'']
   @ (if hasMCP \<and> cfg \<noteq> '''' then [''--mcp-config'', cfg] else [])
   @ (if Resume opts then []
      else [''--model'', if Model opts = '''' then ''sonnet'' else Model opts])
   @ (if PermissionMode opts \<noteq> '''' \<and> PermissionMode opts \<noteq> ''default''
      then [''--permission-mode'', PermissionMode opts] else [])
   @ (case ToolsSettings opts of
        None \<Rightarrow> []
      | Some ts \<Rightarrow>
          if SkipPermissions ts \<and> PermissionMode opts \<noteq> ''plan''
          then [''--dangerously-skip-permissions'']
          else concat (map (\<lambda>t. [''--allowedTools'', t]) (AllowedTools ts))
             @ concat (map (\<lambda>t. [''--disallowedTools'', t]) (DisallowedTools ts))
             @ (if PermissionMode opts = ''plan''
                then concat (map (\<lambda>t. [''--allowedTools'', t])
                       [''Read'', ''Task'', ''exit_plan_mode'', ''TodoRead'', ''TodoWrite''])
                else []))
   @ (if command \<noteq> '''' then [''--print'', ''--'', command] else [])"
  unfolding buildClaudeCLIArgs_def Let_def appendTools_concat planModeTools_def
    if_pos_length if_append_right if_if_append_right if_not_append_right
    if_append_both case_option_append append_assoc append_Nil
  by (intro arg_cong2[where f="(@)"] refl) (simp_all split: option.split)

text \<open>
  Claim C5 as written fails: under \<open>plan\<close> mode with no tools-settings block the fixed
  allow-list is not injected.
\<close>

theorem plan_mode_without_tools_settings_counterexample:
  "buildClaudeCLIArgs False '''' ''hi'' (options0\<lparr>PermissionMode := ''plan''\<rparr>) =
     [''--output-format'', ''stream-json'', ''--verbose'', ''--model'', ''sonnet'',
      ''--permission-mode'', ''plan'', ''--print'', ''--'', ''hi'']"
  by (simp add: buildClaudeCLIArgs_def options0_def)

theorem buildClaudeCLIArgs_shape_witness:
  "buildClaudeCLIArgs True ''/root/.claude.json'' ''hi''
     (options0\<lparr>OptSessionID := ''s1'', Resume := True, PermissionMode := ''plan'',
        ToolsSettings := Some \<lparr>AllowedTools = [''Bash''], DisallowedTools = [''Write''],
                                SkipPermissions = True\<rparr>\<rparr>) =
     [''--resume'', ''s1'', ''--output-format'', ''stream-json'', ''--verbose'',
      ''--mcp-config'', ''/root/.claude.json'', ''--permission-mode'', ''plan'',
      ''--allowedTools'', ''Bash'', ''--disallowedTools'', ''Write'',
      ''--allowedTools'', ''Read'', ''--allowedTools'', ''Task'',
      ''--allowedTools'', ''exit_plan_mode'', ''--allowedTools'', ''TodoRead'',
      ''--allowedTools'', ''TodoWrite'', ''--print'', ''--'', ''hi'']"
  using buildClaudeCLIArgs_shape [of True "''/root/.claude.json''" "''hi''"
      "options0\<lparr>OptSessionID := ''s1'', Resume := True, PermissionMode := ''plan'',
        ToolsSettings := Some \<lparr>AllowedTools = [''Bash''], DisallowedTools = [''Write''],
                                SkipPermissions = True\<rparr>\<rparr>"]
  by (simp add: options0_def)

subsection \<open>After the chat run\<close>

lemma db_UpdateNetworkPath_fields [simp]:
  "builds (db_UpdateNetworkPath w k np) = builds w"
  "build_logs (db_UpdateNetworkPath w k np) = build_logs w"
  "chat_messages (db_UpdateNetworkPath w k np) = chat_messages w"
  "activeBuilds (db_UpdateNetworkPath w k np) = activeBuilds w"
  "effects (db_UpdateNetworkPath w k np) = effects w"
  by (simp_all add: db_UpdateNetworkPath_def)

lemma runGitCommit_fields [simp]:
  "builds (runGitCommit f w d m) = builds w"
  "build_logs (runGitCommit f w d m) = build_logs w"
  "chat_messages (runGitCommit f w d m) = chat_messages w"
  "activeBuilds (runGitCommit f w d m) = activeBuilds w"
  "db_up (runGitCommit f w d m) = db_up w"
  by (simp_all add: runGitCommit_def Let_def)

lemma db_CreateMessage_fields [simp]:
  "builds (db_CreateMessage w m) = builds w"
  "build_logs (db_CreateMessage w m) = build_logs w"
  "activeBuilds (db_CreateMessage w m) = activeBuilds w"
  "db_up (db_CreateMessage w m) = db_up w"
  by (simp_all add: db_CreateMessage_def)

lemma writeEvent_fields [simp]:
  "assistantAccum (writeEvent st n d) = assistantAccum st"
  "written (writeEvent st n d) = written st @ [(n, d)]"
  "readersClosed (writeEvent st n d) = readersClosed st"
  by (simp_all add: writeEvent_def)

lemma finishChat_tables:
  "builds (fst (finishChat env w st)) = builds w
   \<and> build_logs (fst (finishChat env w st)) = build_logs w
   \<and> activeBuilds (fst (finishChat env w st)) = activeBuilds w
   \<and> chat_messages (fst (finishChat env w st)) =
       chat_messages
         (if assistantAccum st \<noteq> ''''
          then db_CreateMessage w
                 \<lparr>MsgSessionID = chatSessionID env, Sender = ''assistant'',
                  Text = Some (assistantAccum st),
                  Content = [(''text'', assistantAccum st)]\<rparr>
          else w)
   \<and> assistantAccum (snd (finishChat env w st)) = assistantAccum st"
  unfolding finishChat_def Let_def
  by (cases "zipFails env"; cases "uploadFails env")
     (simp_all add: split_beta)

lemma finishChat_events:
  "written (snd (finishChat env w st)) = written st @
     (if zipFails env then [(''upload_error'', DataError ''zip failed'')]
      else if uploadFails env then [(''upload_error'', DataError ''upload failed'')] else [])
     @ [(''complete'', DataEmpty)]"
  unfolding finishChat_def Let_def
  by (cases "zipFails env"; cases "uploadFails env")
     (simp_all add: split_beta)

text \<open>
  Claim C6. When packing or uploading fails after the run, the handler writes one
  \<open>upload_error\<close> event before the terminal \<open>complete\<close> event; the build rows and
  build logs are as before, and the chat messages stored are the ones stored when
  packing and uploading succeed.
\<close>

theorem sync_failure_is_a_side_event:
  assumes "zipFails env \<or> uploadFails env"
  shows "builds (fst (finishChat env w st)) = builds w
       \<and> build_logs (fst (finishChat env w st)) = build_logs w
       \<and> chat_messages (fst (finishChat env w st)) =
           chat_messages (fst (finishChat (env\<lparr>zipFails := False, uploadFails := False\<rparr>) w st))
       \<and> written (snd (finishChat env w st)) =
           written st @
             [(''upload_error'',
               DataError (if zipFails env then ''zip failed'' else ''upload failed'')),
              (''complete'', DataEmpty)]"
proof -
  let ?ok = "env\<lparr>zipFails := False, uploadFails := False\<rparr>"
  have "chat_messages (fst (finishChat env w st)) = chat_messages (fst (finishChat ?ok w st))"
    using finishChat_tables [of env w st] finishChat_tables [of ?ok w st] by simp
  moreover have "written (snd (finishChat env w st)) =
           written st @
             [(''upload_error'',
               DataError (if zipFails env then ''zip failed'' else ''upload failed'')),
              (''complete'', DataEmpty)]"
    using assms finishChat_events [of env w st] by auto
  ultimately show ?thesis
    using finishChat_tables [of env w st] by simp
qed

theorem sync_failure_is_a_side_event_witness:
  "uploadFails chat_env0
   \<and> builds (fst (finishChat chat_env0 world0 (chat_start\<lparr>assistantAccum := ''done''\<rparr>))) = []
   \<and> chat_messages (fst (finishChat chat_env0 world0 (chat_start\<lparr>assistantAccum := ''done''\<rparr>))) =
       chat_messages (fst (finishChat (chat_env0\<lparr>zipFails := False, uploadFails := False\<rparr>)
          world0 (chat_start\<lparr>assistantAccum := ''done''\<rparr>)))
   \<and> written (snd (finishChat chat_env0 world0 (chat_start\<lparr>assistantAccum := ''done''\<rparr>))) =
       [(''upload_error'', DataError ''upload failed''), (''complete'', DataEmpty)]"
proof -
  have h: "zipFails chat_env0 \<or> uploadFails chat_env0"
    by (simp add: chat_env0_def)
  show ?thesis
    using sync_failure_is_a_side_event [OF h, of world0 "chat_start\<lparr>assistantAccum := ''done''\<rparr>"]
    by (simp add: chat_env0_def world0_def chat_start_def)
qed

subsection \<open>Lines of the chat stream\<close>

lemma handleLine_written:
  "written (handleLine unmarshal st l) =
     written st @
       (if lineText l = '''' then []
        else if isErr l then [(''claude_error'', DataError (lineText l))]
        else (case unmarshal (lineText l) of
                Some p \<Rightarrow> [(''claude_response'', DataPayload p)]
              | None \<Rightarrow> [(''claude_output'', DataOutput (lineText l))]))"
  by (simp add: handleLine_def writeEvent_def Let_def split: option.split jvalue.split)

lemma handleLine_accum:
  "assistantAccum (handleLine unmarshal st l) =
     assistantAccum st @
       (if lineText l = '''' \<or> isErr l then ''''
        else (case unmarshal (lineText l) of
                Some p \<Rightarrow> (case p ''text'' of Some (JString t) \<Rightarrow> t | _ \<Rightarrow> '''')
              | None \<Rightarrow> lineText l @ [CHR 0x0A]))"
  by (simp add: handleLine_def writeEvent_def Let_def split: option.split jvalue.split)

lemma StreamClaudeChat_loop_lines:
  "StreamClaudeChat_loop unmarshal env w st (map FromOutCh ls)
     = (False, w, foldl (handleLine unmarshal) st ls)"
  by (induction ls arbitrary: st) simp_all

lemma foldl_handleLine_written:
  "written (foldl (handleLine unmarshal) st ls) =
     written st @ concat (map (\<lambda>l.
        if lineText l = '''' then []
        else if isErr l then [(''claude_error'', DataError (lineText l))]
        else (case unmarshal (lineText l) of
                Some p \<Rightarrow> [(''claude_response'', DataPayload p)]
              | None \<Rightarrow> [(''claude_output'', DataOutput (lineText l))])) ls)"
proof (induction ls arbitrary: st)
  case Nil
  then show ?case by simp
next
  case (Cons l ls)
  show ?case
    using Cons.IH [of "handleLine unmarshal st l"] handleLine_written [of unmarshal st l]
    by simp
qed

lemma foldl_handleLine_accum:
  "assistantAccum (foldl (handleLine unmarshal) st ls) =
     assistantAccum st @ concat (map (\<lambda>l.
        if lineText l = '''' \<or> isErr l then ''''
        else (case unmarshal (lineText l) of
                Some p \<Rightarrow> (case p ''text'' of Some (JString t) \<Rightarrow> t | _ \<Rightarrow> '''')
              | None \<Rightarrow> lineText l @ [CHR 0x0A])) ls)"
proof (induction ls arbitrary: st)
  case Nil
  then show ?case by simp
next
  case (Cons l ls)
  show ?case
    using Cons.IH [of "handleLine unmarshal st l"] handleLine_accum [of unmarshal st l]
    by simp
qed

lemma handleLine_readersClosed:
  "handleLine unmarshal (st\<lparr>readersClosed := n\<rparr>) l
     = (handleLine unmarshal st l)\<lparr>readersClosed := n\<rparr>"
  by (simp add: handleLine_def writeEvent_def Let_def split: option.split jvalue.split)

lemma foldl_handleLine_readersClosed:
  "foldl (handleLine unmarshal) (st\<lparr>readersClosed := n\<rparr>) ls
     = (foldl (handleLine unmarshal) st ls)\<lparr>readersClosed := n\<rparr>"
  by (induction ls arbitrary: st) (simp_all add: handleLine_readersClosed)

lemma readersClosed_handleLine:
  "readersClosed (handleLine unmarshal st l) = readersClosed st"
  by (simp add: handleLine_def writeEvent_def Let_def split: option.split jvalue.split)

lemma readersClosed_foldl_handleLine:
  "readersClosed (foldl (handleLine unmarshal) st ls) = readersClosed st"
  by (induction ls arbitrary: st) (simp_all add: readersClosed_handleLine)

lemma StreamClaudeChat_loop_append_lines:
  "StreamClaudeChat_loop unmarshal env w st (map FromOutCh ls @ es)
     = StreamClaudeChat_loop unmarshal env w (foldl (handleLine unmarshal) st ls) es"
  by (induction ls arbitrary: st) simp_all

lemma StreamClaudeChat_loop_both_done:
  assumes "readersClosed st = 0"
  shows "StreamClaudeChat_loop unmarshal env w st
           (map FromOutCh ls1 @ FromDone # map FromOutCh ls2 @ FromDone # rest)
         = (case finishChat env w
                  ((foldl (handleLine unmarshal) st (ls1 @ ls2))\<lparr>readersClosed := 2\<rparr>) of
              (w', st') \<Rightarrow> (True, w', st'))"
proof -
  define st1 where "st1 = foldl (handleLine unmarshal) st ls1"
  define st2 where "st2 = foldl (handleLine unmarshal) (st1\<lparr>readersClosed := 1\<rparr>) ls2"
  have r1: "readersClosed st1 = 0"
    using assms by (simp add: st1_def readersClosed_foldl_handleLine)
  have r2: "readersClosed st2 = 1"
    by (simp add: st2_def readersClosed_foldl_handleLine)
  have a: "StreamClaudeChat_loop unmarshal env w st
             (map FromOutCh ls1 @ FromDone # map FromOutCh ls2 @ FromDone # rest)
           = StreamClaudeChat_loop unmarshal env w st1
               (FromDone # map FromOutCh ls2 @ FromDone # rest)"
    by (simp only: StreamClaudeChat_loop_append_lines st1_def)
  have b: "StreamClaudeChat_loop unmarshal env w st1
               (FromDone # map FromOutCh ls2 @ FromDone # rest)
           = StreamClaudeChat_loop unmarshal env w (st1\<lparr>readersClosed := 1\<rparr>)
               (map FromOutCh ls2 @ FromDone # rest)"
    using r1 by (simp add: Let_def)
  have c: "StreamClaudeChat_loop unmarshal env w (st1\<lparr>readersClosed := 1\<rparr>)
               (map FromOutCh ls2 @ FromDone # rest)
           = StreamClaudeChat_loop unmarshal env w st2 (FromDone # rest)"
    by (simp only: StreamClaudeChat_loop_append_lines st2_def)
  have d: "StreamClaudeChat_loop unmarshal env w st2 (FromDone # rest)
           = (case finishChat env w (st2\<lparr>readersClosed := 2\<rparr>) of
                (w', st') \<Rightarrow> (True, w', st'))"
    using r2 by (simp add: Let_def numeral_2_eq_2)
  have e: "st2\<lparr>readersClosed := 2\<rparr>
           = (foldl (handleLine unmarshal) st (ls1 @ ls2))\<lparr>readersClosed := 2\<rparr>"
    by (simp add: st2_def st1_def foldl_handleLine_readersClosed)
  show ?thesis using a b c d e by simp
qed

text \<open>
  Claim C7 says that every line read from the output of the process is merged into the
  buffer and forwarded. In the loop of \<open>StreamClaudeChat\<close> a line that the loop takes
  from the channel is handled as follows. An empty line is skipped. A non-empty line of
  the error stream is forwarded as a \<open>claude_error\<close> event whatever the decoder would
  say of it, and the buffer is untouched. A non-empty line of the output stream that
  decodes has its \<open>text\<close> field, if that is a string, appended to the buffer and is
  forwarded as a \<open>claude_response\<close> event carrying the decoded object; one that does
  not decode is appended to the buffer with a newline and forwarded as a
  \<open>claude_output\<close> event. Over a run of lines the events written and the buffer are the
  concatenation, in order, of what each line contributes. But the loop does not take
  every line that was read: once it has taken the signal of both readers it finishes
  with the lines taken so far, whatever is still queued in the channel, so the lines
  queued behind the second signal are neither merged nor forwarded.
\<close>

theorem handleLine_cases:
  "(lineText l = '''' \<longrightarrow> handleLine unmarshal st l = st)
   \<and> (lineText l \<noteq> '''' \<and> isErr l \<longrightarrow>
        (\<forall>other. handleLine other st l =
           st\<lparr>written := written st @ [(''claude_error'', DataError (lineText l))]\<rparr>))
   \<and> (lineText l \<noteq> '''' \<and> \<not> isErr l \<longrightarrow>
        (\<forall>p. unmarshal (lineText l) = Some p \<longrightarrow>
           handleLine unmarshal st l =
             st\<lparr>assistantAccum := assistantAccum st @
                    (case p ''text'' of Some (JString t) \<Rightarrow> t | _ \<Rightarrow> ''''),
                written := written st @ [(''claude_response'', DataPayload p)]\<rparr>)
        \<and> (unmarshal (lineText l) = None \<longrightarrow>
           handleLine unmarshal st l =
             st\<lparr>assistantAccum := assistantAccum st @ lineText l @ [CHR 0x0A],
                written := written st @ [(''claude_output'', DataOutput (lineText l))]\<rparr>))
   \<and> (let st' = snd (snd (StreamClaudeChat_loop unmarshal env w st (map FromOutCh ls))) in
        written st' =
          written st @ concat (map (\<lambda>l.
            if lineText l = '''' then []
            else if isErr l then [(''claude_error'', DataError (lineText l))]
            else (case unmarshal (lineText l) of
                    Some p \<Rightarrow> [(''claude_response'', DataPayload p)]
                  | None \<Rightarrow> [(''claude_output'', DataOutput (lineText l))])) ls)
        \<and> assistantAccum st' =
          assistantAccum st @ concat (map (\<lambda>l.
            if lineText l = '''' \<or> isErr l then ''''
            else (case unmarshal (lineText l) of
                    Some p \<Rightarrow> (case p ''text'' of Some (JString t) \<Rightarrow> t | _ \<Rightarrow> '''')
                  | None \<Rightarrow> lineText l @ [CHR 0x0A])) ls))
   \<and> (readersClosed st = 0 \<longrightarrow>
        (\<forall>ls1 ls2 rest.
           StreamClaudeChat_loop unmarshal env w st
             (map FromOutCh ls1 @ FromDone # map FromOutCh ls2 @ FromDone # rest)
           = (case finishChat env w
                    ((foldl (handleLine unmarshal) st (ls1 @ ls2))\<lparr>readersClosed := 2\<rparr>) of
                (w', st') \<Rightarrow> (True, w', st'))))"
proof (intro conjI impI allI)
  assume "lineText l = ''''"
  then show "handleLine unmarshal st l = st" by (simp add: handleLine_def)
next
  fix other
  assume "lineText l \<noteq> '''' \<and> isErr l"
  then show "handleLine other st l =
           st\<lparr>written := written st @ [(''claude_error'', DataError (lineText l))]\<rparr>"
    by (simp add: handleLine_def writeEvent_def)
next
  fix p
  assume "lineText l \<noteq> '''' \<and> \<not> isErr l" and "unmarshal (lineText l) = Some p"
  then show "handleLine unmarshal st l =
             st\<lparr>assistantAccum := assistantAccum st @
                    (case p ''text'' of Some (JString t) \<Rightarrow> t | _ \<Rightarrow> ''''),
                written := written st @ [(''claude_response'', DataPayload p)]\<rparr>"
    by (simp add: handleLine_def writeEvent_def Let_def split: option.split jvalue.split)
next
  assume "lineText l \<noteq> '''' \<and> \<not> isErr l" and "unmarshal (lineText l) = None"
  then show "handleLine unmarshal st l =
             st\<lparr>assistantAccum := assistantAccum st @ lineText l @ [CHR 0x0A],
                written := written st @ [(''claude_output'', DataOutput (lineText l))]\<rparr>"
    by (simp add: handleLine_def writeEvent_def Let_def)
next
  show "let st' = snd (snd (StreamClaudeChat_loop unmarshal env w st (map FromOutCh ls))) in
        written st' =
          written st @ concat (map (\<lambda>l.
            if lineText l = '''' then []
            else if isErr l then [(''claude_error'', DataError (lineText l))]
            else (case unmarshal (lineText l) of
                    Some p \<Rightarrow> [(''claude_response'', DataPayload p)]
                  | None \<Rightarrow> [(''claude_output'', DataOutput (lineText l))])) ls)
        \<and> assistantAccum st' =
          assistantAccum st @ concat (map (\<lambda>l.
            if lineText l = '''' \<or> isErr l then ''''
            else (case unmarshal (lineText l) of
                    Some p \<Rightarrow> (case p ''text'' of Some (JString t) \<Rightarrow> t | _ \<Rightarrow> '''')
                  | None \<Rightarrow> lineText l @ [CHR 0x0A])) ls)"
    unfolding StreamClaudeChat_loop_lines Let_def snd_conv
    using foldl_handleLine_written [of unmarshal st ls]
      foldl_handleLine_accum [of unmarshal st ls]
    by (rule conjI)
next
  fix ls1 ls2 rest
  assume "readersClosed st = 0"
  then show "StreamClaudeChat_loop unmarshal env w st
             (map FromOutCh ls1 @ FromDone # map FromOutCh ls2 @ FromDone # rest)
           = (case finishChat env w
                    ((foldl (handleLine unmarshal) st (ls1 @ ls2))\<lparr>readersClosed := 2\<rparr>) of
                (w', st') \<Rightarrow> (True, w', st'))"
    by (rule StreamClaudeChat_loop_both_done)
qed

text \<open>
  The input on which claim C7 fails. The output reader has queued the lines \<open>hello\<close>
  and \<open>world\<close>; the loop takes \<open>hello\<close>, then the signal of each reader, and
  returns: the events written are one \<open>claude_output\<close> event and \<open>complete\<close>, and
  the message stored holds \<open>hello\<close> only.
\<close>

theorem queued_line_is_dropped_counterexample:
  "fst (StreamClaudeChat_loop sample_Unmarshal (chat_env0\<lparr>uploadFails := False\<rparr>) world0
          chat_start
          [FromOutCh \<lparr>isErr = False, lineText = ''hello''\<rparr>, FromDone, FromDone,
           FromOutCh \<lparr>isErr = False, lineText = ''world''\<rparr>])
   \<and> written (snd (snd (StreamClaudeChat_loop sample_Unmarshal
          (chat_env0\<lparr>uploadFails := False\<rparr>) world0 chat_start
          [FromOutCh \<lparr>isErr = False, lineText = ''hello''\<rparr>, FromDone, FromDone,
           FromOutCh \<lparr>isErr = False, lineText = ''world''\<rparr>])))
       = [(''claude_output'', DataOutput ''hello''), (''complete'', DataEmpty)]
   \<and> map Text (chat_messages (fst (snd (StreamClaudeChat_loop sample_Unmarshal
          (chat_env0\<lparr>uploadFails := False\<rparr>) world0 chat_start
          [FromOutCh \<lparr>isErr = False, lineText = ''hello''\<rparr>, FromDone, FromDone,
           FromOutCh \<lparr>isErr = False, lineText = ''world''\<rparr>]))))
       = [Some (''hello'' @ [CHR 0x0A])]"
proof -
  let ?env = "chat_env0\<lparr>uploadFails := False\<rparr>"
  let ?st = "\<lparr>assistantAccum = ''hello'' @ [CHR 0x0A], readersClosed = 2,
              written = [(''claude_output'', DataOutput ''hello'')]\<rparr>"
  have n: "sample_Unmarshal ''hello'' = None" by (simp add: sample_Unmarshal_def)
  have run: "StreamClaudeChat_loop sample_Unmarshal ?env world0 chat_start
          [FromOutCh \<lparr>isErr = False, lineText = ''hello''\<rparr>, FromDone, FromDone,
           FromOutCh \<lparr>isErr = False, lineText = ''world''\<rparr>]
      = (True, fst (finishChat ?env world0 ?st), snd (finishChat ?env world0 ?st))"
    using n
    by (simp add: handleLine_def writeEvent_def chat_start_def Let_def split_beta
        numeral_2_eq_2)
  have env: "\<not> zipFails ?env" "\<not> uploadFails ?env" by (simp_all add: chat_env0_def)
  have ev: "written (snd (finishChat ?env world0 ?st))
      = [(''claude_output'', DataOutput ''hello''), (''complete'', DataEmpty)]"
    using finishChat_events [of ?env world0 ?st] env by simp
  have msgs: "map Text (chat_messages (fst (finishChat ?env world0 ?st)))
      = [Some (''hello'' @ [CHR 0x0A])]"
    using finishChat_tables [of ?env world0 ?st]
    by (simp add: db_CreateMessage_def world0_def)
  show ?thesis unfolding run using ev msgs by simp
qed

text \<open>
  Apart from that, an empty line does not decode, and the loop skips it: no event is
  written for it and nothing is appended to the buffer.
\<close>

lemma empty_line_is_skipped:
  "sample_Unmarshal '''' = None
   \<and> written (handleLine sample_Unmarshal chat_start \<lparr>isErr = False, lineText = ''''\<rparr>) = []
   \<and> assistantAccum (handleLine sample_Unmarshal chat_start \<lparr>isErr = False, lineText = ''''\<rparr>) = ''''"
  by (simp add: handleLine_def sample_Unmarshal_def chat_start_def)

theorem handleLine_cases_witness:
  "handleLine sample_Unmarshal chat_start \<lparr>isErr = False, lineText = ''{\"text\":\"hi\"}''\<rparr> =
     chat_start\<lparr>assistantAccum := ''hi'',
                written := [(''claude_response'', DataPayload [''text'' \<mapsto> JString ''hi''])]\<rparr>
   \<and> handleLine sample_Unmarshal chat_start \<lparr>isErr = False, lineText = ''hello''\<rparr> =
     chat_start\<lparr>assistantAccum := ''hello'' @ [CHR 0x0A],
                written := [(''claude_output'', DataOutput ''hello'')]\<rparr>
   \<and> handleLine sample_Unmarshal chat_start \<lparr>isErr = True, lineText = ''{}''\<rparr> =
     chat_start\<lparr>written := [(''claude_error'', DataError ''{}'')]\<rparr>
   \<and> handleLine sample_Unmarshal chat_start \<lparr>isErr = True, lineText = ''''\<rparr> = chat_start
   \<and> readersClosed chat_start = 0
   \<and> StreamClaudeChat_loop sample_Unmarshal chat_env0 world0 chat_start
        [FromOutCh \<lparr>isErr = False, lineText = ''hello''\<rparr>, FromDone, FromDone,
         FromOutCh \<lparr>isErr = False, lineText = ''world''\<rparr>]
      = (True,
         fst (finishChat chat_env0 world0
                \<lparr>assistantAccum = ''hello'' @ [CHR 0x0A], readersClosed = 2,
                 written = [(''claude_output'', DataOutput ''hello'')]\<rparr>),
         snd (finishChat chat_env0 world0
                \<lparr>assistantAccum = ''hello'' @ [CHR 0x0A], readersClosed = 2,
                 written = [(''claude_output'', DataOutput ''hello'')]\<rparr>))"
proof -
  have p: "sample_Unmarshal ''{\"text\":\"hi\"}'' = Some [''text'' \<mapsto> JString ''hi'']"
    and n: "sample_Unmarshal ''hello'' = None"
    by (simp_all add: sample_Unmarshal_def)
  have z: "readersClosed chat_start = 0" by (simp add: chat_start_def)
  note a = handleLine_cases [of "\<lparr>isErr = False, lineText = ''{\"text\":\"hi\"}''\<rparr>"
        sample_Unmarshal chat_start chat_env0 world0 "[]"]
  note b = handleLine_cases [of "\<lparr>isErr = False, lineText = ''hello''\<rparr>"
        sample_Unmarshal chat_start chat_env0 world0 "[]"]
  note c = handleLine_cases [of "\<lparr>isErr = True, lineText = ''{}''\<rparr>"
        sample_Unmarshal chat_start chat_env0 world0 "[]"]
  note d = handleLine_cases [of "\<lparr>isErr = True, lineText = ''''\<rparr>"
        sample_Unmarshal chat_start chat_env0 world0 "[]"]
  have 1: "handleLine sample_Unmarshal chat_start \<lparr>isErr = False, lineText = ''{\"text\":\"hi\"}''\<rparr> =
     chat_start\<lparr>assistantAccum := ''hi'',
                written := [(''claude_response'', DataPayload [''text'' \<mapsto> JString ''hi''])]\<rparr>"
    using a p by (simp add: chat_start_def)
  have 2: "handleLine sample_Unmarshal chat_start \<lparr>isErr = False, lineText = ''hello''\<rparr> =
     chat_start\<lparr>assistantAccum := ''hello'' @ [CHR 0x0A],
                written := [(''claude_output'', DataOutput ''hello'')]\<rparr>"
    using b n by (simp add: chat_start_def)
  have 3: "handleLine sample_Unmarshal chat_start \<lparr>isErr = True, lineText = ''{}''\<rparr> =
     chat_start\<lparr>written := [(''claude_error'', DataError ''{}'')]\<rparr>"
    using c by (simp add: chat_start_def)
  have 4: "handleLine sample_Unmarshal chat_start \<lparr>isErr = True, lineText = ''''\<rparr> = chat_start"
    using d by simp
  have "StreamClaudeChat_loop sample_Unmarshal chat_env0 world0 chat_start
          (map FromOutCh [\<lparr>isErr = False, lineText = ''hello''\<rparr>] @ FromDone # map FromOutCh []
             @ FromDone # [FromOutCh \<lparr>isErr = False, lineText = ''world''\<rparr>])
        = (case finishChat chat_env0 world0
                 ((foldl (handleLine sample_Unmarshal) chat_start
                     ([\<lparr>isErr = False, lineText = ''hello''\<rparr>] @ []))\<lparr>readersClosed := 2\<rparr>) of
             (w', st') \<Rightarrow> (True, w', st'))"
    using d z by blast
  then have 5: "StreamClaudeChat_loop sample_Unmarshal chat_env0 world0 chat_start
        [FromOutCh \<lparr>isErr = False, lineText = ''hello''\<rparr>, FromDone, FromDone,
         FromOutCh \<lparr>isErr = False, lineText = ''world''\<rparr>]
      = (True,
         fst (finishChat chat_env0 world0
                \<lparr>assistantAccum = ''hello'' @ [CHR 0x0A], readersClosed = 2,
                 written = [(''claude_output'', DataOutput ''hello'')]\<rparr>),
         snd (finishChat chat_env0 world0
                \<lparr>assistantAccum = ''hello'' @ [CHR 0x0A], readersClosed = 2,
                 written = [(''claude_output'', DataOutput ''hello'')]\<rparr>))"
    using 2 by (simp add: chat_start_def split_beta numeral_2_eq_2)
  from 1 2 3 4 z 5 show ?thesis by (intro conjI)
qed

subsection \<open>The empty command\<close>

lemma StartBuild_ok:
  assumes "mkdir_err w = None" and "db_up w"
  shows "StartBuild newID w userID projectID sessionID command =
    (let wd = getWorkingDirectory userID projectID sessionID;
         b = BeforeCreate newID \<lparr>ID = uuid_Nil, UserID = userID, ProjectID = projectID,
                       SessionID = sessionID, Command = command, WorkingDir = wd,
                       Status = BuildStatusPending, Output = '''', Error = None,
                       ExitCode = None, ProcessID = None, StartedAt = None,
                       CompletedAt = None\<rparr>
     in (Inr b, w\<lparr>effects := effects w @ [EffMkdirAll wd], builds := builds w @ [b]\<rparr>))"
  using assms by (simp add: StartBuild_def os_MkdirAll_def db_Create_def Let_def)

lemma executeBuild_empty:
  assumes "Fields (Command build) = []" and "db_up w"
  shows "executeBuild env lines w build =
    (let r = build\<lparr>Status := BuildStatusRunning, StartedAt := Some (clock w)\<rparr>;
         f = r\<lparr>Status := BuildStatusFailed, CompletedAt := Some (clock w),
                Error := Some ''Empty command'', ExitCode := Some 1\<rparr>
     in (w\<lparr>builds := builds w @ [r, f],
           build_logs := build_logs w @
             [\<lparr>BuildID = ID build, Level = ''info'', Message = ''Build started'', Timestamp = clock w\<rparr>,
              \<lparr>BuildID = ID build, Level = ''error'', Message = ''Empty command'', Timestamp = clock w\<rparr>]\<rparr>, f))"
  using assms
  by (simp add: executeBuild_def executeBuild_launch_def Let_def failBuild_eq db_Save_def
      logBuildEvent_def)

text \<open>
  Claim C10. For a command that is empty or consists of whitespace only, \<open>StartBuild\<close>
  (when the directory can be made and the store is up) returns a build in
  \<open>pending\<close>, having created the working directory and stored the row; and
  \<open>executeBuild\<close>, run on that build in any later state whose store is up, marks it
  failed with error \<open>Empty command\<close>, exit code 1 and the completion time.
\<close>

theorem empty_command_is_accepted_then_failed:
  assumes "whitespaceOnly command"
      and "mkdir_err w = None" and "db_up w" and "db_up w2"
  shows "\<exists>build w1.
           StartBuild newID w userID projectID sessionID command = (Inr build, w1)
         \<and> Status build = BuildStatusPending \<and> Command build = command
         \<and> db_First w1 (ID build) = Some build
         \<and> effects w1 = effects w @ [EffMkdirAll (getWorkingDirectory userID projectID sessionID)]
         \<and> (\<exists>w3 build'. executeBuild env lines w2 build = (w3, build')
              \<and> Status build' = BuildStatusFailed
              \<and> Error build' = Some ''Empty command''
              \<and> ExitCode build' = Some 1
              \<and> CompletedAt build' = Some (clock w2)
              \<and> db_First w3 (ID build) = Some build')"
proof -
  let ?wd = "getWorkingDirectory userID projectID sessionID"
  let ?b = "BeforeCreate newID \<lparr>ID = uuid_Nil, UserID = userID, ProjectID = projectID,
                       SessionID = sessionID, Command = command, WorkingDir = ?wd,
                       Status = BuildStatusPending, Output = '''', Error = None,
                       ExitCode = None, ProcessID = None, StartedAt = None,
                       CompletedAt = None\<rparr>"
  let ?w1 = "w\<lparr>effects := effects w @ [EffMkdirAll ?wd], builds := builds w @ [?b]\<rparr>"
  have start: "StartBuild newID w userID projectID sessionID command = (Inr ?b, ?w1)"
    using StartBuild_ok [OF assms(2,3)] by (simp add: Let_def)
  have cmd: "Command ?b = command" and st: "Status ?b = BuildStatusPending"
    by (simp_all add: BeforeCreate_def)
  have first: "db_First ?w1 (ID ?b) = Some ?b"
    using assms(3) by (simp add: db_First_def)
  have "Fields (Command ?b) = []"
    using assms(1) cmd by (simp add: Fields_empty_iff)
  note ex = executeBuild_empty [OF this assms(4), of env lines]
  let ?f = "?b\<lparr>Status := BuildStatusFailed, StartedAt := Some (clock w2), CompletedAt := Some (clock w2),
                Error := Some ''Empty command'', ExitCode := Some 1\<rparr>"
  obtain w3 where run: "executeBuild env lines w2 ?b = (w3, ?f)"
    and rows: "builds w3 = builds w2 @ [?b\<lparr>Status := BuildStatusRunning, StartedAt := Some (clock w2)\<rparr>, ?f]"
    and up: "db_up w3"
    using ex assms(4) by (simp add: Let_def)
  have "db_First w3 (ID ?b) = Some ?f"
    using rows up by (simp add: db_First_def)
  with start cmd st first run show ?thesis
    by (intro exI [of _ ?b] exI [of _ ?w1] conjI exI [of _ w3] exI [of _ ?f]) simp_all
qed

theorem empty_command_is_accepted_then_failed_witness:
  "whitespaceOnly [CHR '' '', CHR 0x09, CHR 0xC2, CHR 0xA0]
   \<and> (\<exists>build w1.
         StartBuild ''b1'' world0 ''u1'' ''p1'' None [CHR '' '', CHR 0x09, CHR 0xC2, CHR 0xA0]
           = (Inr build, w1)
       \<and> Status build = BuildStatusPending
       \<and> db_First w1 (ID build) = Some build
       \<and> (\<exists>w3 build'. executeBuild host_ok [] (tick world0) build = (w3, build')
            \<and> Status build' = BuildStatusFailed
            \<and> Error build' = Some ''Empty command''
            \<and> ExitCode build' = Some 1
            \<and> CompletedAt build' = Some 1))"
proof -
  have sp: "whitespaceOnly [CHR '' '', CHR 0x09, CHR 0xC2, CHR 0xA0]"
    by (simp add: unicode_IsSpace_def)
  have mk: "mkdir_err world0 = None" and up: "db_up world0" and up2: "db_up (tick world0)"
    and clk: "clock (tick world0) = 1"
    by (simp_all add: world0_def tick_def)
  obtain build w1 where
    "StartBuild ''b1'' world0 ''u1'' ''p1'' None [CHR '' '', CHR 0x09, CHR 0xC2, CHR 0xA0]
       = (Inr build, w1)"
    "Status build = BuildStatusPending" "db_First w1 (ID build) = Some build"
    "\<exists>w3 build'. executeBuild host_ok [] (tick world0) build = (w3, build')
            \<and> Status build' = BuildStatusFailed
            \<and> Error build' = Some ''Empty command''
            \<and> ExitCode build' = Some 1
            \<and> CompletedAt build' = Some (clock (tick world0))"
    using empty_command_is_accepted_then_failed [OF sp mk up up2,
        of "''b1''" "''u1''" "''p1''" None host_ok "[]"]
    by blast
  then show ?thesis using sp clk by auto
qed

subsection \<open>The shell command\<close>

lemma executeBuild_launch_Cons:
  assumes "Fields (Command build) = cmdName # cmdArgs"
  shows "\<exists>w1 r cmd. executeBuild_launch env w build =
            startCommand env w1 r cmd ''Failed to start command: '' ''Process started with PID: ''
          \<and> r = build\<lparr>Status := BuildStatusRunning, StartedAt := Some (clock w)\<rparr>
          \<and> w1 = logBuildEvent (db_Save w r) (ID build) ''info'' ''Build started''
          \<and> Path cmd = cmdName \<and> Args cmd = cmdName # cmdArgs \<and> Dir cmd = WorkingDir build
          \<and> Process cmd = None"
proof -
  define r where "r = build\<lparr>Status := BuildStatusRunning, StartedAt := Some (clock w)\<rparr>"
  define w1 where "w1 = logBuildEvent (db_Save w r) (ID build) ''info'' ''Build started''"
  define cmd where "cmd = \<lparr>Path = cmdName, Args = cmdName # cmdArgs, Dir = WorkingDir r,
                Env = buildEnv w1 r, Process = None\<rparr>"
  have "executeBuild_launch env w build =
          startCommand env w1 r cmd ''Failed to start command: '' ''Process started with PID: ''"
    using assms by (simp add: executeBuild_launch_def Let_def r_def w1_def cmd_def)
  moreover have "Path cmd = cmdName" "Args cmd = cmdName # cmdArgs" "Dir cmd = WorkingDir build"
    "Process cmd = None"
    by (simp_all add: cmd_def r_def)
  ultimately show ?thesis using r_def w1_def by blast
qed



subsection \<open>Failure to start\<close>

text \<open>
  Claim C3, as the code has it. When the process fails to start (the pipes having been
  created and the store being up), \<open>executeBuild\<close> stores two versions of the row: the
  first with status \<open>running\<close> and the start time, the second with status
  \<open>failed\<close>, exit code 1, the error message and the completion time. The process id
  stays as it was.
\<close>

theorem spawn_failure_goes_through_running:
  assumes "Fields (Command build) \<noteq> []"
      and "stdoutPipeErr env = None" and "stderrPipeErr env = None"
      and "startErr env = Some err" and "db_up w"
  shows "\<exists>w' r f.
           executeBuild env lines w build = (w', f)
         \<and> builds w' = builds w @ [r, f]
         \<and> r = build\<lparr>Status := BuildStatusRunning, StartedAt := Some (clock w)\<rparr>
         \<and> f = r\<lparr>Status := BuildStatusFailed, CompletedAt := Some (clock w),
                  Error := Some (''Failed to start command: '' @ err), ExitCode := Some 1\<rparr>
         \<and> ProcessID r = ProcessID build \<and> ProcessID f = ProcessID build"
proof -
  obtain cmdName cmdArgs where parts: "Fields (Command build) = cmdName # cmdArgs"
    using assms(1) by (cases "Fields (Command build)") auto
  obtain w1 r cmd where launch: "executeBuild_launch env w build =
            startCommand env w1 r cmd ''Failed to start command: '' ''Process started with PID: ''"
    and r: "r = build\<lparr>Status := BuildStatusRunning, StartedAt := Some (clock w)\<rparr>"
    and w1: "w1 = logBuildEvent (db_Save w r) (ID build) ''info'' ''Build started''"
    using executeBuild_launch_Cons [OF parts, of env w] by blast
  define f where "f = r\<lparr>Status := BuildStatusFailed, CompletedAt := Some (clock w),
                  Error := Some (''Failed to start command: '' @ err), ExitCode := Some 1\<rparr>"
  have up: "db_up w1" and clk: "clock w1 = clock w" and rows1: "builds w1 = builds w @ [r]"
    using assms(5) w1 by (simp_all add: builds_db_Save)
  note sf = startCommand_spawn_failure [OF assms(2,3,4) up, of r cmd
      "''Failed to start command: ''" "''Process started with PID: ''"]
  obtain w' where res: "executeBuild_launch env w build = (False, w', f)"
    and rows: "builds w' = builds w1 @ [f]"
    using launch sf clk by (simp add: Let_def f_def)
  have rows': "builds w' = builds w @ [r, f]" using rows rows1 by simp
  have run: "executeBuild env lines w build = (w', f)"
    using res by (simp add: executeBuild_def)
  have "ProcessID r = ProcessID build" "ProcessID f = ProcessID build"
    by (simp_all add: r f_def)
  with run rows' r f_def show ?thesis
    by (intro exI [of _ w'] exI [of _ r] exI [of _ f]) simp
qed

theorem spawn_failure_goes_through_running_witness:
  "Fields (Command (build1 ''nosuchprog'')) = [''nosuchprog'']
   \<and> startErr host_missing = Some ''exec: no such file or directory''
   \<and> (\<exists>w' r f.
         executeBuild host_missing [] world0 (build1 ''nosuchprog'') = (w', f)
       \<and> builds w' = [r, f]
       \<and> Status r = BuildStatusRunning \<and> StartedAt r = Some 0
       \<and> Status f = BuildStatusFailed
       \<and> Error f = Some ''Failed to start command: exec: no such file or directory''
       \<and> ExitCode f = Some 1 \<and> CompletedAt f = Some 0
       \<and> ProcessID r = None \<and> ProcessID f = None)"
proof -
  have f: "Fields (Command (build1 ''nosuchprog'')) = [''nosuchprog'']"
    by (simp add: build1_def example_fields)
  then have ne: "Fields (Command (build1 ''nosuchprog'')) \<noteq> []" by simp
  have e: "stdoutPipeErr host_missing = None" "stderrPipeErr host_missing = None"
    "startErr host_missing = Some ''exec: no such file or directory''"
    by (simp_all add: host_missing_def)
  have up: "db_up world0" and w: "builds world0 = []" "clock world0 = 0"
    by (simp_all add: world0_def)
  have p: "ProcessID (build1 ''nosuchprog'') = None" by (simp add: build1_def)
  obtain w' r f' where
    "executeBuild host_missing [] world0 (build1 ''nosuchprog'') = (w', f')"
    "builds w' = builds world0 @ [r, f']"
    "r = (build1 ''nosuchprog'')\<lparr>Status := BuildStatusRunning, StartedAt := Some (clock world0)\<rparr>"
    "f' = r\<lparr>Status := BuildStatusFailed, CompletedAt := Some (clock world0),
            Error := Some (''Failed to start command: '' @ ''exec: no such file or directory''),
            ExitCode := Some 1\<rparr>"
    "ProcessID r = ProcessID (build1 ''nosuchprog'')"
    "ProcessID f' = ProcessID (build1 ''nosuchprog'')"
    using spawn_failure_goes_through_running [OF ne e up, of "[]"] by blast
  then have "executeBuild host_missing [] world0 (build1 ''nosuchprog'') = (w', f')
       \<and> builds w' = [r, f']
       \<and> Status r = BuildStatusRunning \<and> StartedAt r = Some 0
       \<and> Status f' = BuildStatusFailed
       \<and> Error f' = Some ''Failed to start command: exec: no such file or directory''
       \<and> ExitCode f' = Some 1 \<and> CompletedAt f' = Some 0
       \<and> ProcessID r = None \<and> ProcessID f' = None"
    using w p by simp
  then show ?thesis using f e(3) by blast
qed

text \<open>
  Claim C3 as written fails: a build whose executable cannot be started is stored as
  \<open>running\<close> before it is stored as \<open>failed\<close>.
\<close>

theorem spawn_failure_is_set_to_running_counterexample:
  "startErr host_missing = Some ''exec: no such file or directory''
   \<and> fst (StartBuild ''b1'' world0 ''u1'' ''p1'' None ''nosuchprog'') = Inr (build1 ''nosuchprog'')
   \<and> statusHistory
        (fst (executeBuild host_missing []
                (snd (StartBuild ''b1'' world0 ''u1'' ''p1'' None ''nosuchprog''))
                (build1 ''nosuchprog''))) ''b1''
       = [BuildStatusPending, BuildStatusRunning, BuildStatusFailed]"
proof -
  have c: "Command (build1 ''nosuchprog'') = ''nosuchprog''"
    by (simp add: build1_def)
  have "statusHistory
        (fst (executeBuild host_missing []
                (world0\<lparr>effects := [EffMkdirAll ''/tmp/borderless-coding/builds/u1/p1''],
                         builds := [build1 ''nosuchprog'']\<rparr>)
                (build1 ''nosuchprog''))) ''b1''
       = [BuildStatusPending, BuildStatusRunning, BuildStatusFailed]"
    unfolding executeBuild_def executeBuild_launch_def Let_def
    by (simp add: c example_fields)
       (simp add: Let_def startCommand_def host_missing_def failBuild_def db_Save_def
          logBuildEvent_def world0_def statusHistory_def build1_def)
  then show ?thesis
    by (simp add: StartBuild_example host_missing_def)
qed

subsection \<open>Cancelling\<close>

lemma db_First_handles [simp]:
  "db_First (w\<lparr>activeBuilds := a, effects := e\<rparr>) k = db_First w k"
  by (simp add: db_First_def)

lemma CancelBuild_live:
  assumes "activeBuilds w buildID = Some cmd" and "Process cmd = Some (p, st)"
      and "st \<noteq> ProcDone" and "db_First w buildID = Some build"
  shows "CancelBuild w buildID =
    (None,
     w\<lparr>activeBuilds := (activeBuilds w)(buildID \<mapsto> cmd\<lparr>Process := Some (p, ProcKilled)\<rparr>),
       effects := effects w @ [EffKill p],
       builds := builds w @ [build\<lparr>Status := BuildStatusCancelled,
                                     CompletedAt := Some (clock w)\<rparr>],
       build_logs := build_logs w @
         [\<lparr>BuildID = buildID, Level = ''warn'', Message = ''Build cancelled by user'',
           Timestamp = clock w\<rparr>]\<rparr>)"
  using assms db_First_up [OF assms(4)]
  by (simp add: CancelBuild_def Let_def db_Save_def logBuildEvent_def)

lemma CancelBuild_again:
  assumes "activeBuilds w buildID = Some cmd" and "Process cmd = Some (p, st)"
      and "st \<noteq> ProcDone" and "db_First w buildID = Some build"
  shows "fst (CancelBuild (snd (CancelBuild w buildID)) buildID) = None
       \<and> map_option Status (db_First (snd (CancelBuild w buildID)) buildID)
           = Some BuildStatusCancelled"
proof -
  let ?c = "cmd\<lparr>Process := Some (p, ProcKilled)\<rparr>"
  let ?b = "build\<lparr>Status := BuildStatusCancelled, CompletedAt := Some (clock w)\<rparr>"
  define w1 where "w1 = snd (CancelBuild w buildID)"
  have up: "db_up w" and id: "ID build = buildID"
    using assms(4) db_First_up db_First_ID by blast+
  have w1: "activeBuilds w1 buildID = Some ?c" "db_First w1 buildID = Some ?b"
    using CancelBuild_live [OF assms] up id by (simp_all add: w1_def db_First_def)
  have "Process ?c = Some (p, ProcKilled)" "ProcKilled \<noteq> ProcDone" by simp_all
  from CancelBuild_live [OF w1(1) this w1(2)] w1(2) show ?thesis
    by (simp add: w1_def)
qed

lemma finishCommand_unregisters:
  "activeBuilds (fst (finishCommand env w build buf m1 m2)) (ID build) = None"
  by (cases "cmd_Wait env w (ID build)"; cases "fst (cmd_Wait env w (ID build))")
     (simp_all add: finishCommand_def Let_def)

lemma failBuild_Status [simp]:
  "Status (snd (failBuild w build msg)) = BuildStatusFailed"
  by (simp add: failBuild_def Let_def)

lemma startCommand_failure_parts:
  assumes "stdoutPipeErr env \<noteq> None \<or> stderrPipeErr env \<noteq> None \<or> startErr env \<noteq> None"
  shows "fst (startCommand env w build cmd m1 m2) = False
       \<and> activeBuilds (fst (snd (startCommand env w build cmd m1 m2))) (ID build) = Some cmd
       \<and> Status (snd (snd (startCommand env w build cmd m1 m2))) = BuildStatusFailed"
  using assms
  by (cases "stdoutPipeErr env"; cases "stderrPipeErr env"; cases "startErr env")
     (simp_all add: startCommand_def Let_def split_beta)

lemma startCommand_failure_keeps_handle:
  assumes "stdoutPipeErr env \<noteq> None \<or> stderrPipeErr env \<noteq> None \<or> startErr env \<noteq> None"
  shows "\<exists>w' f. startCommand env w build cmd m1 m2 = (False, w', f)
           \<and> activeBuilds w' (ID build) = Some cmd \<and> Status f = BuildStatusFailed"
  using startCommand_failure_parts [OF assms, of w build cmd m1 m2]
  by (cases "startCommand env w build cmd m1 m2") auto

lemma executeBuild_failure_keeps_handle:
  assumes "Fields (Command build) \<noteq> []"
      and "stdoutPipeErr env \<noteq> None \<or> stderrPipeErr env \<noteq> None \<or> startErr env \<noteq> None"
  shows "\<exists>w' f cmd. executeBuild env lines w build = (w', f)
           \<and> activeBuilds w' (ID build) = Some cmd \<and> Process cmd = None
           \<and> Status f = BuildStatusFailed"
proof -
  obtain cmdName cmdArgs where parts: "Fields (Command build) = cmdName # cmdArgs"
    using assms(1) by (cases "Fields (Command build)") auto
  obtain w1 r cmd where launch: "executeBuild_launch env w build =
            startCommand env w1 r cmd ''Failed to start command: '' ''Process started with PID: ''"
    and r: "r = build\<lparr>Status := BuildStatusRunning, StartedAt := Some (clock w)\<rparr>"
    and nil: "Process cmd = None"
    using executeBuild_launch_Cons [OF parts, of env w] by blast
  have id: "ID r = ID build" using r by simp
  obtain w' f where sc: "startCommand env w1 r cmd ''Failed to start command: ''
         ''Process started with PID: '' = (False, w', f)"
    and h: "activeBuilds w' (ID r) = Some cmd" and s: "Status f = BuildStatusFailed"
    using startCommand_failure_keeps_handle [OF assms(2), of w1 r cmd] by blast
  have "executeBuild env lines w build = (w', f)"
    using launch sc by (simp add: executeBuild_def)
  then show ?thesis using h s nil id by auto
qed

lemma executeClaudeCLI_failure_keeps_handle:
  assumes "stdoutPipeErr env \<noteq> None \<or> stderrPipeErr env \<noteq> None \<or> startErr env \<noteq> None"
  shows "\<exists>w' f cmd. executeClaudeCLI path mcp cfg unmarshal env lines w build options = (w', f)
           \<and> activeBuilds w' (ID build) = Some cmd \<and> Process cmd = None
           \<and> Status f = BuildStatusFailed"
proof -
  define r where "r = build\<lparr>Status := BuildStatusRunning, StartedAt := Some (clock w)\<rparr>"
  define w1 where "w1 = logBuildEvent (db_Save w r) (ID r) ''info'' ''Claude CLI build started''"
  define cmd where "cmd = \<lparr>Path = (if path = '''' then ''claude'' else path),
      Args = (if path = '''' then ''claude'' else path)
               # buildClaudeCLIArgs mcp cfg (Command r) options,
      Dir = WorkingDir r, Env = buildEnv w1 r, Process = None\<rparr>"
  have launch: "executeClaudeCLI_launch path mcp cfg env w build options =
      startCommand env w1 r cmd ''Failed to start Claude CLI: ''
        ''Claude CLI process started with PID: ''"
    by (simp add: executeClaudeCLI_launch_def Let_def r_def w1_def cmd_def)
  have id: "ID r = ID build" and nil: "Process cmd = None" by (simp_all add: r_def cmd_def)
  obtain w' f where sc: "startCommand env w1 r cmd ''Failed to start Claude CLI: ''
        ''Claude CLI process started with PID: '' = (False, w', f)"
    and h: "activeBuilds w' (ID r) = Some cmd" and s: "Status f = BuildStatusFailed"
    using startCommand_failure_keeps_handle [OF assms, of w1 r cmd] by blast
  have "executeClaudeCLI path mcp cfg unmarshal env lines w build options = (w', f)"
    using launch sc by (simp add: executeClaudeCLI_def)
  then show ?thesis using h s nil id by auto
qed

text \<open>
  Claim C4 says that cancelling a build with no live handle fails with \<open>NotRunning\<close>,
  that cancelling one with a live handle kills the process, stores the row as
  \<open>cancelled\<close> with the completion time and adds the log record, and that a second
  cancel of a build that has reached a final status fails with \<open>NotRunning\<close>. The
  code does otherwise, and the outcomes of \<open>CancelBuild\<close> are these, in every state.
  With no handle registered it returns \<open>NotRunning\<close> and changes nothing. With a handle
  whose process was never started it dereferences the nil process. With a handle whose
  process has been waited for it returns the error of \<open>Kill\<close>. With a handle whose
  process has not been waited for it kills the process; when the row is missing it
  returns the error of the lookup, and otherwise it stores the row as \<open>cancelled\<close> with
  the completion time, adds the warning record \<open>Build cancelled by user\<close> and returns
  nil. It never removes the handle, so a second call made right after a successful one
  returns nil again. Only the final part of \<open>executeBuild\<close> or \<open>executeClaudeCLI\<close>
  removes the handle, after which \<open>CancelBuild\<close> returns \<open>NotRunning\<close>. When a pipe
  cannot be created or the process cannot be started, the build is stored as \<open>failed\<close>
  and the handle, registered before, stays: cancelling that build dereferences the nil
  process.
\<close>

theorem cancel_outcomes:
  "(activeBuilds w buildID = None \<longrightarrow> CancelBuild w buildID = (Some NotRunning, w))
   \<and> (\<forall>cmd. activeBuilds w buildID = Some cmd \<and> Process cmd = None \<longrightarrow>
         CancelBuild w buildID = (Some NilPointerPanic, w))
   \<and> (\<forall>cmd p. activeBuilds w buildID = Some cmd \<and> Process cmd = Some (p, ProcDone) \<longrightarrow>
         CancelBuild w buildID =
           (Some (KillFailed ''failed to kill process: os: process already finished''), w))
   \<and> (\<forall>cmd p st.
         activeBuilds w buildID = Some cmd \<and> Process cmd = Some (p, st) \<and> st \<noteq> ProcDone
         \<and> db_First w buildID = None \<longrightarrow>
         fst (CancelBuild w buildID) = Some RecordNotFound
         \<and> effects (snd (CancelBuild w buildID)) = effects w @ [EffKill p]
         \<and> builds (snd (CancelBuild w buildID)) = builds w)
   \<and> (\<forall>cmd p st build.
         activeBuilds w buildID = Some cmd \<and> Process cmd = Some (p, st) \<and> st \<noteq> ProcDone
         \<and> db_First w buildID = Some build \<longrightarrow>
         (\<exists>w'. CancelBuild w buildID = (None, w')
            \<and> effects w' = effects w @ [EffKill p]
            \<and> db_First w' buildID =
                 Some (build\<lparr>Status := BuildStatusCancelled, CompletedAt := Some (clock w)\<rparr>)
            \<and> build_logs w' = build_logs w @
                 [\<lparr>BuildID = buildID, Level = ''warn'', Message = ''Build cancelled by user'',
                   Timestamp = clock w\<rparr>]
            \<and> activeBuilds w' buildID = Some (cmd\<lparr>Process := Some (p, ProcKilled)\<rparr>)
            \<and> fst (CancelBuild w' buildID) = None))
   \<and> (\<forall>env build buf.
         ID build = buildID \<longrightarrow>
         fst (CancelBuild (fst (executeBuild_finish env w build buf)) buildID) = Some NotRunning
         \<and> fst (CancelBuild (fst (executeClaudeCLI_finish env w build buf)) buildID)
             = Some NotRunning)
   \<and> (\<forall>env build.
         ID build = buildID
         \<and> (stdoutPipeErr env \<noteq> None \<or> stderrPipeErr env \<noteq> None \<or> startErr env \<noteq> None) \<longrightarrow>
         (Fields (Command build) \<noteq> [] \<longrightarrow>
            (\<forall>lines.
               Status (snd (executeBuild env lines w build)) = BuildStatusFailed
               \<and> fst (CancelBuild (fst (executeBuild env lines w build)) buildID)
                   = Some NilPointerPanic))
         \<and> (\<forall>path mcp cfg unmarshal lines options.
               Status (snd (executeClaudeCLI path mcp cfg unmarshal env lines w build options))
                 = BuildStatusFailed
               \<and> fst (CancelBuild
                        (fst (executeClaudeCLI path mcp cfg unmarshal env lines w build options))
                        buildID)
                   = Some NilPointerPanic))"
proof (intro conjI allI impI)
  assume "activeBuilds w buildID = None"
  then show "CancelBuild w buildID = (Some NotRunning, w)"
    by (simp add: CancelBuild_def)
next
  fix cmd
  assume "activeBuilds w buildID = Some cmd \<and> Process cmd = None"
  then show "CancelBuild w buildID = (Some NilPointerPanic, w)"
    by (simp add: CancelBuild_def)
next
  fix cmd p
  assume "activeBuilds w buildID = Some cmd \<and> Process cmd = Some (p, ProcDone)"
  then show "CancelBuild w buildID =
           (Some (KillFailed ''failed to kill process: os: process already finished''), w)"
    by (simp add: CancelBuild_def)
next
  fix cmd p st
  assume h: "activeBuilds w buildID = Some cmd \<and> Process cmd = Some (p, st) \<and> st \<noteq> ProcDone
         \<and> db_First w buildID = None"
  then show "fst (CancelBuild w buildID) = Some RecordNotFound"
    "effects (snd (CancelBuild w buildID)) = effects w @ [EffKill p]"
    "builds (snd (CancelBuild w buildID)) = builds w"
    by (simp_all add: CancelBuild_def Let_def)
next
  fix cmd p st build
  assume h: "activeBuilds w buildID = Some cmd \<and> Process cmd = Some (p, st) \<and> st \<noteq> ProcDone
         \<and> db_First w buildID = Some build"
  then have up: "db_up w" and id: "ID build = buildID"
    using db_First_up db_First_ID by blast+
  from h have live: "activeBuilds w buildID = Some cmd" "Process cmd = Some (p, st)"
    "st \<noteq> ProcDone" "db_First w buildID = Some build" by simp_all
  note eq = CancelBuild_live [OF live]
  have again: "fst (CancelBuild (snd (CancelBuild w buildID)) buildID) = None"
    using CancelBuild_again [OF live] by simp
  show "\<exists>w'. CancelBuild w buildID = (None, w')
            \<and> effects w' = effects w @ [EffKill p]
            \<and> db_First w' buildID =
                 Some (build\<lparr>Status := BuildStatusCancelled, CompletedAt := Some (clock w)\<rparr>)
            \<and> build_logs w' = build_logs w @
                 [\<lparr>BuildID = buildID, Level = ''warn'', Message = ''Build cancelled by user'',
                   Timestamp = clock w\<rparr>]
            \<and> activeBuilds w' buildID = Some (cmd\<lparr>Process := Some (p, ProcKilled)\<rparr>)
            \<and> fst (CancelBuild w' buildID) = None"
    using up id eq again by (simp add: db_First_def)
next
  fix env and build :: Build and buf
  assume "ID build = buildID"
  then show "fst (CancelBuild (fst (executeBuild_finish env w build buf)) buildID) = Some NotRunning"
    using finishCommand_unregisters [of env w build buf]
    by (simp add: CancelBuild_def executeBuild_finish_def)
next
  fix env and build :: Build and buf
  assume "ID build = buildID"
  then show "fst (CancelBuild (fst (executeClaudeCLI_finish env w build buf)) buildID)
             = Some NotRunning"
    using finishCommand_unregisters [of env w build buf]
    by (simp add: CancelBuild_def executeClaudeCLI_finish_def)
next
  fix env :: proc_env and build :: Build and lines
  assume h: "ID build = buildID
         \<and> (stdoutPipeErr env \<noteq> None \<or> stderrPipeErr env \<noteq> None \<or> startErr env \<noteq> None)"
    and ne: "Fields (Command build) \<noteq> []"
  from h have bad: "stdoutPipeErr env \<noteq> None \<or> stderrPipeErr env \<noteq> None \<or> startErr env \<noteq> None"
    and id: "ID build = buildID" by simp_all
  obtain w' f cmd where "executeBuild env lines w build = (w', f)"
    "activeBuilds w' (ID build) = Some cmd" "Process cmd = None" "Status f = BuildStatusFailed"
    using executeBuild_failure_keeps_handle [OF ne bad, of lines w] by blast
  then show "Status (snd (executeBuild env lines w build)) = BuildStatusFailed"
    "fst (CancelBuild (fst (executeBuild env lines w build)) buildID) = Some NilPointerPanic"
    using id by (simp_all add: CancelBuild_def)
next
  fix env :: proc_env and build :: Build and path mcp cfg unmarshal lines options
  assume h: "ID build = buildID
         \<and> (stdoutPipeErr env \<noteq> None \<or> stderrPipeErr env \<noteq> None \<or> startErr env \<noteq> None)"
  from h have bad: "stdoutPipeErr env \<noteq> None \<or> stderrPipeErr env \<noteq> None \<or> startErr env \<noteq> None"
    and id: "ID build = buildID" by simp_all
  obtain w' f cmd where
    "executeClaudeCLI path mcp cfg unmarshal env lines w build options = (w', f)"
    "activeBuilds w' (ID build) = Some cmd" "Process cmd = None" "Status f = BuildStatusFailed"
    using executeClaudeCLI_failure_keeps_handle [OF bad, of path mcp cfg unmarshal lines w build options]
    by blast
  then show "Status (snd (executeClaudeCLI path mcp cfg unmarshal env lines w build options))
                 = BuildStatusFailed"
    "fst (CancelBuild
                        (fst (executeClaudeCLI path mcp cfg unmarshal env lines w build options))
                        buildID)
                   = Some NilPointerPanic"
    using id by (simp_all add: CancelBuild_def)
qed

text \<open>
  The two inputs on which claim C4 fails. The build \<open>b1\<close> runs \<open>sleep 100\<close> and is
  cancelled twice in a row: the second call returns nil as well, on a build that is
  already \<open>cancelled\<close>. The build \<open>b1\<close> with the command \<open>nosuchprog\<close> fails to
  start and is stored as \<open>failed\<close>: cancelling it dereferences the nil process
  and does not return \<open>NotRunning\<close>.
\<close>

theorem second_cancel_succeeds_again_counterexample:
  "fst (CancelBuild world_running ''b1'') = None
   \<and> map_option Status (GetBuild (snd (CancelBuild world_running ''b1'')) ''b1'')
       = Some BuildStatusCancelled
   \<and> fst (CancelBuild (snd (CancelBuild world_running ''b1'')) ''b1'') = None
   \<and> Status (snd (executeBuild host_missing [] world0 (build1 ''nosuchprog''))) = BuildStatusFailed
   \<and> fst (CancelBuild (fst (executeBuild host_missing [] world0 (build1 ''nosuchprog''))) ''b1'')
       = Some NilPointerPanic"
proof -
  have ne: "ProcRunning \<noteq> ProcDone" by simp
  note live = world_running_facts(1) world_running_facts(2) ne world_running_facts(3)
  have f: "Fields (Command (build1 ''nosuchprog'')) \<noteq> []"
    by (simp add: build1_def example_fields)
  have bad: "stdoutPipeErr host_missing \<noteq> None \<or> stderrPipeErr host_missing \<noteq> None
             \<or> startErr host_missing \<noteq> None"
    by (simp add: host_missing_def)
  have id: "ID (build1 ''nosuchprog'') = ''b1''" by (simp add: build1_def)
  obtain w' f' cmd where
    "executeBuild host_missing [] world0 (build1 ''nosuchprog'') = (w', f')"
    "activeBuilds w' (ID (build1 ''nosuchprog'')) = Some cmd" "Process cmd = None"
    "Status f' = BuildStatusFailed"
    using executeBuild_failure_keeps_handle [OF f bad, of "[]" world0] by blast
  then have leak: "Status (snd (executeBuild host_missing [] world0 (build1 ''nosuchprog'')))
       = BuildStatusFailed
     \<and> fst (CancelBuild (fst (executeBuild host_missing [] world0 (build1 ''nosuchprog''))) ''b1'')
       = Some NilPointerPanic"
    using id by (simp add: CancelBuild_def)
  show ?thesis
    using CancelBuild_live [OF live] CancelBuild_again [OF live] leak
    by (simp add: GetBuild_def)
qed

theorem cancel_outcomes_witness:
  "CancelBuild world0 ''b1'' = (Some NotRunning, world0)
   \<and> (\<exists>w'. CancelBuild world_running ''b1'' = (None, w')
         \<and> effects w' = effects world_running @ [EffKill 4242]
         \<and> db_First w' ''b1'' =
              Some (build_running\<lparr>Status := BuildStatusCancelled, CompletedAt := Some 1\<rparr>)
         \<and> build_logs w' = build_logs world_running @
              [\<lparr>BuildID = ''b1'', Level = ''warn'', Message = ''Build cancelled by user'',
                Timestamp = 1\<rparr>]
         \<and> activeBuilds w' ''b1'' = Some (cmd_sleep\<lparr>Process := Some (4242, ProcKilled)\<rparr>)
         \<and> fst (CancelBuild w' ''b1'') = None)
   \<and> fst (CancelBuild (fst (executeBuild_finish host_ok
            (snd (CancelBuild world_running ''b1'')) build_running '''')) ''b1'') = Some NotRunning
   \<and> Status (snd (executeBuild host_missing [] world0 (build1 ''nosuchprog''))) = BuildStatusFailed
   \<and> fst (CancelBuild (fst (executeBuild host_missing [] world0 (build1 ''nosuchprog''))) ''b1'')
       = Some NilPointerPanic"
proof -
  have none: "activeBuilds world0 ''b1'' = None" by (simp add: world0_def)
  have live: "activeBuilds world_running ''b1'' = Some cmd_sleep
              \<and> Process cmd_sleep = Some (4242, ProcRunning)
              \<and> ProcRunning \<noteq> ProcDone
              \<and> db_First world_running ''b1'' = Some build_running"
    using world_running_facts by simp
  have f: "Fields (Command (build1 ''nosuchprog'')) \<noteq> []"
    by (simp add: build1_def example_fields)
  have bad: "ID (build1 ''nosuchprog'') = ''b1''
         \<and> (stdoutPipeErr host_missing \<noteq> None \<or> stderrPipeErr host_missing \<noteq> None
             \<or> startErr host_missing \<noteq> None)"
    by (simp add: host_missing_def build1_def)
  have a: "CancelBuild world0 ''b1'' = (Some NotRunning, world0)"
    using cancel_outcomes [of world0 "''b1''"] none by blast
  have b: "\<exists>w'. CancelBuild world_running ''b1'' = (None, w')
         \<and> effects w' = effects world_running @ [EffKill 4242]
         \<and> db_First w' ''b1'' =
              Some (build_running\<lparr>Status := BuildStatusCancelled,
                                  CompletedAt := Some (clock world_running)\<rparr>)
         \<and> build_logs w' = build_logs world_running @
              [\<lparr>BuildID = ''b1'', Level = ''warn'', Message = ''Build cancelled by user'',
                Timestamp = clock world_running\<rparr>]
         \<and> activeBuilds w' ''b1'' = Some (cmd_sleep\<lparr>Process := Some (4242, ProcKilled)\<rparr>)
         \<and> fst (CancelBuild w' ''b1'') = None"
    using cancel_outcomes [of world_running "''b1''"] live by blast
  have c: "fst (CancelBuild (fst (executeBuild_finish host_ok
            (snd (CancelBuild world_running ''b1'')) build_running '''')) ''b1'') = Some NotRunning"
    using cancel_outcomes [of "snd (CancelBuild world_running ''b1'')" "''b1''"]
      world_running_facts(5) by blast
  have d: "Status (snd (executeBuild host_missing [] world0 (build1 ''nosuchprog'')))
             = BuildStatusFailed
     \<and> fst (CancelBuild (fst (executeBuild host_missing [] world0 (build1 ''nosuchprog''))) ''b1'')
       = Some NilPointerPanic"
    using cancel_outcomes [of world0 "''b1''"] bad f by blast
  show ?thesis using a b c d world_running_facts(4) by simp
qed

subsection \<open>Log records of the lines read\<close>



lemma streamBuildLine_step:
  "streamBuildLine k (w, buf) (e, line) =
     (logBuildEvent w k (if e then ''error'' else ''info'') line, buf @ line @ [CHR 0x0A])"
  by (simp add: streamBuildLine_def)

lemma streamClaudeLine_up:
  "db_up (fst (streamClaudeLine u k (w, buf) l)) = db_up w"
  by (cases l) (simp add: streamClaudeLine_def Let_def split: option.split jvalue.split)



lemma foldl_build_up:
  "db_up (fst (foldl (streamBuildLine k) (w, buf) lines)) = db_up w"
  by (induction lines arbitrary: w buf) (auto simp: streamBuildLine_step)



lemma foldl_claude_up:
  "db_up (fst (foldl (streamClaudeLine u k) (w, buf) lines)) = db_up w"
proof (induction lines arbitrary: w buf)
  case Nil
  then show ?case by simp
next
  case (Cons l lines)
  obtain w1 buf1 where s: "streamClaudeLine u k (w, buf) l = (w1, buf1)"
    by (cases "streamClaudeLine u k (w, buf) l")
  have "db_up w1 = db_up w" using streamClaudeLine_up [of u k w buf l] s by simp
  then show ?case using Cons.IH [of w1 buf1] s by simp
qed



lemma cmd_Wait_fields [simp]:
  "build_logs (snd (cmd_Wait env w k)) = build_logs w"
  "db_up (snd (cmd_Wait env w k)) = db_up w"
  "builds (snd (cmd_Wait env w k)) = builds w"
  "clock (snd (cmd_Wait env w k)) = clock w"
  by (simp_all add: cmd_Wait_def split: option.split prod.split)




lemma handleLine_accum_written:
  "readersClosed (handleLine u st l) = readersClosed st"
  by (simp add: handleLine_def writeEvent_def Let_def split: option.split jvalue.split)




subsection \<open>Cancelled, then failed\<close>

lemma finishCommand_killed:
  assumes "activeBuilds w (ID build) = Some cmd" and "Process cmd = Some (p, ProcKilled)"
      and "db_up w"
  shows "finishCommand env w build buf m1 m2 =
    (let b = build\<lparr>CompletedAt := Some (clock w), Output := buf,
                     Status := BuildStatusFailed, ExitCode := Some (- 1),
                     Error := Some ''signal: killed''\<rparr>
     in (w\<lparr>activeBuilds := (activeBuilds w)(ID build := None),
           build_logs := build_logs w @
             [\<lparr>BuildID = ID build, Level = ''error'',
               Message = m1 @ itoa (- 1) @ '': '' @ ''signal: killed'',
               Timestamp = clock w\<rparr>],
           builds := builds w @ [b]\<rparr>, b))"
  using assms
  by (simp add: finishCommand_def cmd_Wait_def Let_def logBuildEvent_def db_Save_def)

text \<open>
  Claim C1 says that a build marked \<open>cancelled\<close> is never marked \<open>failed\<close>
  afterwards. The code does otherwise. Whenever \<open>CancelBuild\<close> succeeds on a build whose
  process has not been waited for, the row is stored as \<open>cancelled\<close>; the final part of
  \<open>executeBuild\<close>, run by the execution task on its own copy of the build once the
  killed process has ended, then stores it as \<open>failed\<close>.
\<close>

theorem cancelled_build_is_remarked_failed:
  assumes "activeBuilds w buildID = Some cmd" and "Process cmd = Some (p, st)"
      and "st \<noteq> ProcDone" and "db_First w buildID = Some row" and "ID build = buildID"
  shows "fst (CancelBuild w buildID) = None
       \<and> map_option Status (GetBuild (snd (CancelBuild w buildID)) buildID)
           = Some BuildStatusCancelled
       \<and> map_option Status
            (GetBuild (fst (executeBuild_finish env (snd (CancelBuild w buildID)) build buf))
               buildID)
           = Some BuildStatusFailed
       \<and> statusHistory (fst (executeBuild_finish env (snd (CancelBuild w buildID)) build buf))
            buildID
           = statusHistory w buildID @ [BuildStatusCancelled, BuildStatusFailed]"
proof -
  let ?c = "cmd\<lparr>Process := Some (p, ProcKilled)\<rparr>"
  let ?r = "row\<lparr>Status := BuildStatusCancelled, CompletedAt := Some (clock w)\<rparr>"
  define w1 where "w1 = snd (CancelBuild w buildID)"
  have up: "db_up w" and id: "ID row = buildID"
    using assms(4) db_First_up db_First_ID by blast+
  note live = CancelBuild_live [OF assms(1,2,3,4)]
  have w1: "activeBuilds w1 (ID build) = Some ?c" "db_First w1 buildID = Some ?r"
    "db_up w1" "builds w1 = builds w @ [?r]"
    using live up id assms(5) by (simp_all add: w1_def db_First_def)
  have k: "Process ?c = Some (p, ProcKilled)" by simp
  define b where "b = build\<lparr>CompletedAt := Some (clock w1), Output := buf,
                     Status := BuildStatusFailed, ExitCode := Some (- 1),
                     Error := Some ''signal: killed''\<rparr>"
  define w2 where "w2 = fst (executeBuild_finish env w1 build buf)"
  have w2: "builds w2 = builds w1 @ [b]" "db_up w2"
    using finishCommand_killed [OF w1(1) k w1(3), of env buf] w1(3)
    by (simp_all add: w2_def executeBuild_finish_def Let_def b_def)
  have idb: "ID b = buildID" "Status b = BuildStatusFailed"
    using assms(5) by (simp_all add: b_def)
  have last: "db_First w2 buildID = Some b"
    using w2 idb by (simp add: db_First_def)
  have hist: "statusHistory w2 buildID
                = statusHistory w buildID @ [BuildStatusCancelled, BuildStatusFailed]"
    using w2(1) w1(4) idb id by (simp add: statusHistory_def)
  have cb: "CancelBuild w buildID = (None, w1)"
    using live by (simp add: w1_def)
  have fin: "fst (executeBuild_finish env w1 build buf) = w2"
    by (simp add: w2_def)
  show ?thesis
    using w1(2) last idb(2) hist
    by (simp add: GetBuild_def cb fin)
qed

theorem cancelled_build_is_remarked_failed_witness:
  "fst (CancelBuild world_running ''b1'') = None
   \<and> map_option Status (GetBuild (snd (CancelBuild world_running ''b1'')) ''b1'')
       = Some BuildStatusCancelled
   \<and> map_option Status
        (GetBuild (fst (executeBuild_finish host_ok (snd (CancelBuild world_running ''b1''))
                     build_running '''')) ''b1'')
       = Some BuildStatusFailed
   \<and> statusHistory
        (fst (executeBuild_finish host_ok (snd (CancelBuild world_running ''b1''))
                build_running '''')) ''b1''
       = [BuildStatusPending, BuildStatusRunning, BuildStatusRunning,
          BuildStatusCancelled, BuildStatusFailed]"
proof -
  have ne: "ProcRunning \<noteq> ProcDone" by simp
  have h: "statusHistory world_running ''b1''
             = [BuildStatusPending, BuildStatusRunning, BuildStatusRunning]"
    by (simp add: statusHistory_def world_running_def build_running_def build_started_def
        build1_def)
  show ?thesis
    using cancelled_build_is_remarked_failed [OF world_running_facts(1) world_running_facts(2)
        ne world_running_facts(3) world_running_facts(5), of host_ok "''''"] h
    by simp
qed

subsection \<open>Entries that leave the destination\<close>

lemma isPathSafe_own_prefix:
  "isPathSafe env destPath (destPath @ ''/'' @ name) = (stat_ok env destPath \<and> destPath \<noteq> [])"
  by (simp add: isPathSafe_def Let_def)

lemma UnZipFile_loop_stops_at_traversal:
  assumes "filepath_Abs (getwd env)
             (filepath_Join [destPath, strings_ReplaceAll_char (Name f) (CHR 0x5C) (CHR ''/'')])
           = Inr targetAbs"
      and "targetAbs \<noteq> destAbs" and "\<not> strings_HasPrefix targetAbs (destAbs @ ''/'')"
  shows "UnZipFile_loop env destPath destAbs (f # fs) ops = (None, ops)"
  using assms by (simp add: Let_def)

lemma filepath_Abs_ok: "\<exists>p. filepath_Abs (Some wd) path = Inr p"
  by (simp add: filepath_Abs_def)

lemma UnZipFile_loop_nil:
  assumes "\<forall>op. op_err env op = None" and "\<forall>f \<in> set files. OpenErr f = None"
      and "getwd env = Some wd"
  shows "fst (UnZipFile_loop env destPath destAbs files ops) = None"
  using assms(2)
proof (induction files arbitrary: ops)
  case Nil
  then show ?case by simp
next
  case (Cons f fs)
  obtain targetAbs where abs: "filepath_Abs (getwd env)
      (filepath_Join [destPath, strings_ReplaceAll_char (Name f) (CHR 0x5C) (CHR ''/'')])
      = Inr targetAbs"
    using filepath_Abs_ok [of wd] assms(3) by auto
  have oe: "OpenErr f = None" and rest: "\<forall>f \<in> set fs. OpenErr f = None"
    using Cons.prems by simp_all
  show ?case
    using abs assms(1) oe Cons.IH [OF rest]
    by (simp add: Let_def)
qed

lemma UnZipFile2_loop_keeps:
  "set ops \<subseteq> set (snd (UnZipFile2_loop env destPath files ops))"
proof (induction files arbitrary: ops)
  case Nil
  then show ?case by simp
next
  case (Cons f fs)
  let ?p = "destPath @ ''/'' @ Name f"
  let ?m = "OpMkdirAll (getParentDir ?p) 493"
  let ?o = "OpOpenFile ?p (Mode f)"
  let ?c = "OpCopy ?p (Body f)"
  show ?case
  proof (cases "isPathSafe env destPath ?p")
    case False
    then show ?thesis by (simp add: Let_def)
  next
    case safe: True
    show ?thesis
    proof (cases "IsDir f")
      case True
      then show ?thesis
        using safe Cons.IH [of "ops @ [OpMkdirAll ?p (Mode f)]"]
        by (cases "op_err env (OpMkdirAll ?p (Mode f))") (auto simp: Let_def)
    next
      case nd: False
      show ?thesis
        using safe nd Cons.IH [of "((ops @ [?m]) @ [?o]) @ [?c]"]
        by (cases "op_err env ?m"; cases "OpenErr f"; cases "op_err env ?o";
            cases "op_err env ?c")
           (auto simp: Let_def)
    qed
  qed
qed

lemma UnZipFile2_loop_extracts:
  assumes "\<forall>op. op_err env op = None" and "\<forall>f \<in> set files. OpenErr f = None"
      and "stat_ok env destPath" and "destPath \<noteq> []"
  shows "fst (UnZipFile2_loop env destPath files ops) = None
       \<and> (\<forall>f \<in> set files. \<not> IsDir f \<longrightarrow>
            OpCopy (destPath @ ''/'' @ Name f) (Body f)
              \<in> set (snd (UnZipFile2_loop env destPath files ops)))"
  using assms(2)
proof (induction files arbitrary: ops)
  case Nil
  then show ?case by simp
next
  case (Cons f fs)
  let ?p = "destPath @ ''/'' @ Name f"
  let ?m = "OpMkdirAll (getParentDir ?p) 493"
  let ?o = "OpOpenFile ?p (Mode f)"
  let ?c = "OpCopy ?p (Body f)"
  have safe: "isPathSafe env destPath ?p"
    using isPathSafe_own_prefix [of env destPath "Name f"] assms(3,4) by simp
  have oe: "OpenErr f = None" and rest: "\<forall>f \<in> set fs. OpenErr f = None"
    using Cons.prems by simp_all
  show ?case
  proof (cases "IsDir f")
    case True
    then have "UnZipFile2_loop env destPath (f # fs) ops
                 = UnZipFile2_loop env destPath fs (ops @ [OpMkdirAll ?p (Mode f)])"
      using safe assms(1) by (simp add: Let_def)
    then show ?thesis
      using True Cons.IH [OF rest, of "ops @ [OpMkdirAll ?p (Mode f)]"] by simp
  next
    case False
    then have step: "UnZipFile2_loop env destPath (f # fs) ops
                 = UnZipFile2_loop env destPath fs (((ops @ [?m]) @ [?o]) @ [?c])"
      using safe assms(1) oe by (simp add: Let_def)
    have "?c \<in> set (snd (UnZipFile2_loop env destPath fs (((ops @ [?m]) @ [?o]) @ [?c])))"
      using UnZipFile2_loop_keeps [of "((ops @ [?m]) @ [?o]) @ [?c]" env destPath fs] by auto
    then show ?thesis
      using step Cons.IH [OF rest, of "((ops @ [?m]) @ [?o]) @ [?c]"] by simp
  qed
qed

text \<open>
  Claim C2 says that an archive with an entry that resolves outside the destination is
  rejected with an error. The code does otherwise. On a file system where every operation
  succeeds and every entry can be opened, \<open>UnZipFile\<close> returns nil for every archive,
  whatever the names of its entries: at an entry that leaves the destination the loop
  stops and returns the error variable, which is nil there. The other version of the
  function returns nil for every archive as well, and when the destination exists it
  copies every file entry to the destination joined with the entry's name as it stands,
  because \<open>isPathSafe\<close> compares the destination with the front of a path that was
  built from the destination.
\<close>

theorem traversal_entry_is_not_reported:
  assumes "\<forall>op. op_err env op = None" and "\<forall>f \<in> set files. OpenErr f = None"
      and "getwd env = Some wd"
  shows "fst (UnZipFile env (Inr files) destPath) = None
       \<and> fst (UnZipFile2 env (Inr files) destPath) = None
       \<and> (stat_ok env destPath \<and> destPath \<noteq> [] \<longrightarrow>
            (\<forall>f \<in> set files. \<not> IsDir f \<longrightarrow>
               OpCopy (destPath @ ''/'' @ Name f) (Body f)
                 \<in> set (snd (UnZipFile2 env (Inr files) destPath))))"
proof (intro conjI impI)
  obtain destAbs where abs: "filepath_Abs (getwd env) destPath = Inr destAbs"
    using filepath_Abs_ok [of wd] assms(3) by auto
  show "fst (UnZipFile env (Inr files) destPath) = None"
    using abs assms(1) UnZipFile_loop_nil [OF assms]
    by (simp add: UnZipFile_def)
next
  show "fst (UnZipFile2 env (Inr files) destPath) = None"
  proof (cases "stat_ok env destPath \<and> destPath \<noteq> []")
    case True
    then show ?thesis
      using UnZipFile2_loop_extracts [OF assms(1,2), of destPath "[]"]
      by (simp add: UnZipFile2_def)
  next
    case False
    then have never: "\<And>name. \<not> isPathSafe env destPath (destPath @ ''/'' @ name)"
      using isPathSafe_own_prefix [of env destPath] by simp
    show ?thesis
    proof (cases files)
      case Nil
      then show ?thesis by (simp add: UnZipFile2_def)
    next
      case (Cons f fs)
      then show ?thesis using never [of "Name f"] by (simp add: UnZipFile2_def Let_def)
    qed
  qed
next
  assume "stat_ok env destPath \<and> destPath \<noteq> []"
  then show "\<forall>f \<in> set files. \<not> IsDir f \<longrightarrow>
               OpCopy (destPath @ ''/'' @ Name f) (Body f)
                 \<in> set (snd (UnZipFile2 env (Inr files) destPath))"
    using UnZipFile2_loop_extracts [OF assms(1,2), of destPath "[]"]
    by (simp add: UnZipFile2_def)
qed

theorem traversal_entry_is_not_reported_witness:
  "filepath_Abs (getwd fs_ok) (filepath_Join [''/tmp/work'', Name passwd_entry])
     = Inr ''/etc/passwd''
   \<and> UnZipFile fs_ok (Inr [passwd_entry]) ''/tmp/work''
     = (None, [OpMkdirAll ''/tmp/work'' 493])
   \<and> fst (UnZipFile2 fs_ok (Inr [passwd_entry]) ''/tmp/work'') = None
   \<and> OpCopy ''/tmp/work/../../etc/passwd'' ''root''
       \<in> set (snd (UnZipFile2 fs_ok (Inr [passwd_entry]) ''/tmp/work''))
   \<and> filepath_Abs (getwd fs_ok) ''/tmp/work/../../etc/passwd'' = Inr ''/etc/passwd''"
proof -
  have nm: "strings_ReplaceAll_char (Name passwd_entry) (CHR 0x5C) (CHR ''/'') = Name passwd_entry"
    by (simp add: passwd_entry_def strings_ReplaceAll_char_def)
  have j: "filepath_Join [''/tmp/work'', Name passwd_entry] = ''/etc/passwd''"
    unfolding passwd_entry_def by code_simp
  have a1: "filepath_Abs (getwd fs_ok) ''/etc/passwd'' = Inr ''/etc/passwd''"
    unfolding fs_ok_def by code_simp
  have a2: "filepath_Abs (getwd fs_ok) ''/tmp/work'' = Inr ''/tmp/work''"
    unfolding fs_ok_def by code_simp
  have a3: "filepath_Abs (getwd fs_ok) ''/tmp/work/../../etc/passwd'' = Inr ''/etc/passwd''"
    unfolding fs_ok_def by code_simp
  have out: "''/etc/passwd'' \<noteq> ''/tmp/work''"
    "\<not> strings_HasPrefix ''/etc/passwd'' (''/tmp/work'' @ ''/'')"
    by (simp_all add: strings_HasPrefix_def)
  have h: "\<forall>op. op_err fs_ok op = None" "\<forall>f \<in> set [passwd_entry]. OpenErr f = None"
    "getwd fs_ok = Some ''/srv''"
    by (simp_all add: fs_ok_def passwd_entry_def)
  have st: "stat_ok fs_ok ''/tmp/work'' \<and> ''/tmp/work'' \<noteq> []"
    by (simp add: fs_ok_def)
  note t = traversal_entry_is_not_reported [OF h, of "''/tmp/work''"]
  have loop: "UnZipFile_loop fs_ok ''/tmp/work'' ''/tmp/work'' [passwd_entry]
                [OpMkdirAll ''/tmp/work'' 493] = (None, [OpMkdirAll ''/tmp/work'' 493])"
    using UnZipFile_loop_stops_at_traversal [of fs_ok "''/tmp/work''" passwd_entry
        "''/etc/passwd''" "''/tmp/work''"] nm j a1 out
    by simp
  have u1: "UnZipFile fs_ok (Inr [passwd_entry]) ''/tmp/work''
     = (None, [OpMkdirAll ''/tmp/work'' 493])"
    using loop a2 h(1) by (simp add: UnZipFile_def)
  have u2: "fst (UnZipFile2 fs_ok (Inr [passwd_entry]) ''/tmp/work'') = None"
    using t by blast
  have u3: "OpCopy (''/tmp/work'' @ ''/'' @ Name passwd_entry) (Body passwd_entry)
       \<in> set (snd (UnZipFile2 fs_ok (Inr [passwd_entry]) ''/tmp/work''))"
    using t st by (simp add: passwd_entry_def)
  have u3': "OpCopy ''/tmp/work/../../etc/passwd'' ''root''
       \<in> set (snd (UnZipFile2 fs_ok (Inr [passwd_entry]) ''/tmp/work''))"
    using u3 by (simp add: passwd_entry_def)
  show ?thesis using nm j a1 a3 u1 u2 u3' by simp
qed

text \<open>
  The part of claim C2 that holds for \<open>UnZipFile\<close>: every file it opens or copies to
  is the destination or below it.
\<close>

lemma UnZipFile_loop_writes_inside:
  assumes "\<forall>op \<in> set ops. \<forall>p. (\<exists>m. op = OpOpenFile p m) \<or> (\<exists>b. op = OpCopy p b) \<longrightarrow>
             p = destAbs \<or> strings_HasPrefix p (destAbs @ ''/'')"
  shows "\<forall>op \<in> set (snd (UnZipFile_loop env destPath destAbs files ops)).
           \<forall>p. (\<exists>m. op = OpOpenFile p m) \<or> (\<exists>b. op = OpCopy p b) \<longrightarrow>
             p = destAbs \<or> strings_HasPrefix p (destAbs @ ''/'')"
  using assms
proof (induction files arbitrary: ops)
  case Nil
  then show ?case by simp
next
  case (Cons f fs)
  let ?name = "strings_ReplaceAll_char (Name f) (CHR 0x5C) (CHR ''/'')"
  show ?case
  proof (cases "filepath_Abs (getwd env) (filepath_Join [destPath, ?name])")
    case (Inl err)
    then show ?thesis using Cons.prems by (simp add: Let_def)
  next
    case (Inr targetAbs)
    show ?thesis
    proof (cases "\<not> strings_HasPrefix targetAbs (destAbs @ ''/'') \<and> targetAbs \<noteq> destAbs")
      case True
      then show ?thesis using Inr Cons.prems by (simp add: Let_def)
    next
      case False
      then have ok: "targetAbs = destAbs \<or> strings_HasPrefix targetAbs (destAbs @ ''/'')"
        by blast
      let ?d = "OpMkdirAll targetAbs (Mode f)"
      let ?m = "OpMkdirAll (filepath_Dir targetAbs) 493"
      let ?o = "OpOpenFile targetAbs (Mode f)"
      let ?c = "OpCopy targetAbs (Body f)"
      have p1: "\<forall>op \<in> set (ops @ [?d]). \<forall>p. (\<exists>m. op = OpOpenFile p m) \<or> (\<exists>b. op = OpCopy p b)
                  \<longrightarrow> p = destAbs \<or> strings_HasPrefix p (destAbs @ ''/'')"
        and p2: "\<forall>op \<in> set (ops @ [?m]). \<forall>p. (\<exists>m. op = OpOpenFile p m) \<or> (\<exists>b. op = OpCopy p b)
                  \<longrightarrow> p = destAbs \<or> strings_HasPrefix p (destAbs @ ''/'')"
        and p3: "\<forall>op \<in> set ((ops @ [?m]) @ [?o]). \<forall>p. (\<exists>m. op = OpOpenFile p m) \<or> (\<exists>b. op = OpCopy p b)
                  \<longrightarrow> p = destAbs \<or> strings_HasPrefix p (destAbs @ ''/'')"
        and p4: "\<forall>op \<in> set (((ops @ [?m]) @ [?o]) @ [?c]). \<forall>p. (\<exists>m. op = OpOpenFile p m) \<or> (\<exists>b. op = OpCopy p b)
                  \<longrightarrow> p = destAbs \<or> strings_HasPrefix p (destAbs @ ''/'')"
        using Cons.prems ok by auto
      show ?thesis
      proof (cases "IsDir f")
        case True
        then show ?thesis
          using Inr False p1 Cons.IH [OF p1]
          by (cases "op_err env ?d") (simp_all add: Let_def)
      next
        case nd: False
        show ?thesis
        proof (cases "op_err env ?m")
          case (Some e)
          then show ?thesis using Inr False nd p2 by (simp add: Let_def)
        next
          case m: None
          show ?thesis
          proof (cases "OpenErr f")
            case (Some e)
            then show ?thesis using Inr False nd m p2 by (simp add: Let_def)
          next
            case oe: None
            show ?thesis
            proof (cases "op_err env ?o")
              case (Some e)
              then show ?thesis using Inr False nd m oe p3 by (simp add: Let_def)
            next
              case o: None
              show ?thesis
                using Inr False nd m oe o p4 Cons.IH [OF p4]
                by (cases "op_err env ?c") (simp_all add: Let_def)
            qed
          qed
        qed
      qed
    qed
  qed
qed

end
